theory Spec2Isabelle
  imports Complex_Main
begin


section \<open>JavaScript numbers\<close>

text \<open>
  The physics engine of the drone calculator (\<^verbatim>\<open>src/utils/physics.js\<close>) computes with
  JavaScript numbers. A number is modelled as a real, one of the two infinities, or NaN.
  Arithmetic on finite values is exact: rounding to 64-bit doubles, overflow to infinity
  and the sign of zero are outside this model; the rounding is written out, for the
  functions that compute the hover operating point, in the section on rounded
  arithmetic. Every operation that JavaScript defines on
  the special values (an infinity, NaN, a zero divisor, the square root of a negative
  number) is written out, so that each function of the engine is modelled on all of its
  inputs and not only where real arithmetic is defined.
\<close>

datatype jsnum = Fin real | PInf | NInf | NaN

fun jneg :: "jsnum \<Rightarrow> jsnum" where
  "jneg (Fin a) = Fin (- a)"
| "jneg PInf = NInf"
| "jneg NInf = PInf"
| "jneg NaN = NaN"

fun jadd :: "jsnum \<Rightarrow> jsnum \<Rightarrow> jsnum" where
  "jadd (Fin a) (Fin b) = Fin (a + b)"
| "jadd NaN _ = NaN"
| "jadd _ NaN = NaN"
| "jadd PInf NInf = NaN"
| "jadd NInf PInf = NaN"
| "jadd PInf _ = PInf"
| "jadd _ PInf = PInf"
| "jadd NInf _ = NInf"
| "jadd _ NInf = NInf"

definition jsub :: "jsnum \<Rightarrow> jsnum \<Rightarrow> jsnum" where
  "jsub a b = jadd a (jneg b)"

text \<open>The sign of a nonzero number times an infinity; zero times an infinity is NaN.\<close>

definition signed_inf :: "real \<Rightarrow> jsnum" where
  "signed_inf a = (if a = 0 then NaN else if 0 < a then PInf else NInf)"

fun jmul :: "jsnum \<Rightarrow> jsnum \<Rightarrow> jsnum" where
  "jmul (Fin a) (Fin b) = Fin (a * b)"
| "jmul NaN _ = NaN"
| "jmul _ NaN = NaN"
| "jmul (Fin a) PInf = signed_inf a"
| "jmul (Fin a) NInf = signed_inf (- a)"
| "jmul PInf (Fin b) = signed_inf b"
| "jmul NInf (Fin b) = signed_inf (- b)"
| "jmul PInf PInf = PInf"
| "jmul NInf NInf = PInf"
| "jmul PInf NInf = NInf"
| "jmul NInf PInf = NInf"

text \<open>
  Division never raises in JavaScript: a nonzero number over zero is an infinity,
  zero over zero is NaN. The zero divisor is taken as \<open>+0\<close>.
\<close>

fun jdiv :: "jsnum \<Rightarrow> jsnum \<Rightarrow> jsnum" where
  "jdiv (Fin a) (Fin b) = (if b = 0 then signed_inf a else Fin (a / b))"
| "jdiv NaN _ = NaN"
| "jdiv _ NaN = NaN"
| "jdiv (Fin a) PInf = Fin 0"
| "jdiv (Fin a) NInf = Fin 0"
| "jdiv PInf (Fin b) = (if 0 \<le> b then PInf else NInf)"
| "jdiv NInf (Fin b) = (if 0 \<le> b then NInf else PInf)"
| "jdiv PInf PInf = NaN"
| "jdiv PInf NInf = NaN"
| "jdiv NInf PInf = NaN"
| "jdiv NInf NInf = NaN"

text \<open>Comparisons: every comparison with NaN is false.\<close>

fun jlt :: "jsnum \<Rightarrow> jsnum \<Rightarrow> bool" where
  "jlt (Fin a) (Fin b) = (a < b)"
| "jlt NaN _ = False"
| "jlt _ NaN = False"
| "jlt PInf _ = False"
| "jlt _ NInf = False"
| "jlt _ PInf = True"
| "jlt NInf _ = True"

fun jle :: "jsnum \<Rightarrow> jsnum \<Rightarrow> bool" where
  "jle (Fin a) (Fin b) = (a \<le> b)"
| "jle NaN _ = False"
| "jle _ NaN = False"
| "jle _ PInf = True"
| "jle NInf _ = True"
| "jle PInf _ = False"
| "jle _ NInf = False"

definition jgt :: "jsnum \<Rightarrow> jsnum \<Rightarrow> bool" where
  "jgt a b = jlt b a"

definition jge :: "jsnum \<Rightarrow> jsnum \<Rightarrow> bool" where
  "jge a b = jle b a"

text \<open>\<^verbatim>\<open>Math.max\<close> and \<^verbatim>\<open>Math.min\<close> return NaN as soon as one argument is NaN.\<close>

definition Math_max :: "jsnum \<Rightarrow> jsnum \<Rightarrow> jsnum" where
  "Math_max a b = (if a = NaN \<or> b = NaN then NaN else if jlt a b then b else a)"

definition Math_min :: "jsnum \<Rightarrow> jsnum \<Rightarrow> jsnum" where
  "Math_min a b = (if a = NaN \<or> b = NaN then NaN else if jlt b a then b else a)"

fun Math_sqrt :: "jsnum \<Rightarrow> jsnum" where
  "Math_sqrt (Fin a) = (if a < 0 then NaN else Fin (sqrt a))"
| "Math_sqrt PInf = PInf"
| "Math_sqrt NInf = NaN"
| "Math_sqrt NaN = NaN"

fun Math_exp :: "jsnum \<Rightarrow> jsnum" where
  "Math_exp (Fin a) = Fin (exp a)"
| "Math_exp PInf = PInf"
| "Math_exp NInf = Fin 0"
| "Math_exp NaN = NaN"

text \<open>
  \<^verbatim>\<open>Math.pow\<close>, in the case order of the language definition: a NaN exponent, a zero
  exponent, a NaN base, an infinite base, a zero base, an infinite exponent, a negative
  base with a fractional exponent, and the ordinary power.
\<close>

definition is_integer :: "real \<Rightarrow> bool" where
  "is_integer y = (of_int \<lfloor>y\<rfloor> = y)"

definition is_odd_integer :: "real \<Rightarrow> bool" where
  "is_odd_integer y = (is_integer y \<and> odd \<lfloor>y\<rfloor>)"

definition finite_pow :: "real \<Rightarrow> real \<Rightarrow> jsnum" where
  "finite_pow x y =
     (if x = 0 then (if 0 < y then Fin 0 else PInf)
      else if 0 < x then Fin (x powr y)
      else if is_integer y then Fin (x powi \<lfloor>y\<rfloor>)
      else NaN)"

fun Math_pow :: "jsnum \<Rightarrow> jsnum \<Rightarrow> jsnum" where
  "Math_pow b NaN = NaN"
| "Math_pow b (Fin y) =
     (if y = 0 then Fin 1
      else case b of
        NaN \<Rightarrow> NaN
      | PInf \<Rightarrow> (if 0 < y then PInf else Fin 0)
      | NInf \<Rightarrow> (if 0 < y then (if is_odd_integer y then NInf else PInf) else Fin 0)
      | Fin x \<Rightarrow> finite_pow x y)"
| "Math_pow b PInf =
     (case b of
        NaN \<Rightarrow> NaN
      | PInf \<Rightarrow> PInf
      | NInf \<Rightarrow> PInf
      | Fin x \<Rightarrow> (if x = 0 then Fin 0 else if 1 < \<bar>x\<bar> then PInf
                  else if \<bar>x\<bar> = 1 then NaN else Fin 0))"
| "Math_pow b NInf =
     (case b of
        NaN \<Rightarrow> NaN
      | PInf \<Rightarrow> Fin 0
      | NInf \<Rightarrow> Fin 0
      | Fin x \<Rightarrow> (if x = 0 then PInf else if 1 < \<bar>x\<bar> then Fin 0
                  else if \<bar>x\<bar> = 1 then NaN else PInf))"

text \<open>
  A property that may be absent (\<^verbatim>\<open>undefined\<close> or \<^verbatim>\<open>null\<close>) is an option.
  \<^verbatim>\<open>x || d\<close> takes \<open>d\<close> when \<open>x\<close> is falsy: absent, zero or NaN.
  \<^verbatim>\<open>x ?? d\<close> takes \<open>d\<close> only when \<open>x\<close> is absent.
  An absent value used as a number is NaN.
\<close>

type_synonym field = "jsnum option"

fun truthy :: "jsnum \<Rightarrow> bool" where
  "truthy (Fin a) = (a \<noteq> 0)"
| "truthy PInf = True"
| "truthy NInf = True"
| "truthy NaN = False"

definition or_default :: "field \<Rightarrow> jsnum \<Rightarrow> jsnum" where
  "or_default x d = (case x of None \<Rightarrow> d | Some v \<Rightarrow> if truthy v then v else d)"

definition nullish :: "field \<Rightarrow> jsnum \<Rightarrow> jsnum" where
  "nullish x d = (case x of None \<Rightarrow> d | Some v \<Rightarrow> v)"

definition ToNumber :: "field \<Rightarrow> jsnum" where
  "ToNumber x = (case x of None \<Rightarrow> NaN | Some v \<Rightarrow> v)"

text \<open>For strings, \<^verbatim>\<open>s || d\<close> takes \<open>d\<close> when \<open>s\<close> is absent or empty.\<close>

definition or_default_str :: "string option \<Rightarrow> string \<Rightarrow> string" where
  "or_default_str x d = (case x of None \<Rightarrow> d | Some s \<Rightarrow> if s = [] then d else s)"

section \<open>Constants and lookup tables\<close>

definition SEA_LEVEL_PRESSURE :: jsnum where "SEA_LEVEL_PRESSURE = Fin 101325"
definition SEA_LEVEL_TEMP :: jsnum where "SEA_LEVEL_TEMP = Fin 288.15"
definition LAPSE_RATE :: jsnum where "LAPSE_RATE = Fin 0.0065"
definition AIR_GAS_CONSTANT :: jsnum where "AIR_GAS_CONSTANT = Fin 287.058"
definition GRAVITY :: jsnum where "GRAVITY = Fin 9.80665"
definition MOLAR_MASS_AIR :: jsnum where "MOLAR_MASS_AIR = Fin 0.0289644"
definition UNIVERSAL_GAS_CONSTANT :: jsnum where "UNIVERSAL_GAS_CONSTANT = Fin 8.31447"

text \<open>
  The wire table is keyed by the gauge; a number used as a property key selects the entry
  whose key is its decimal form, so only the eight gauges below are found.
\<close>

definition AWG_RESISTANCE :: "jsnum \<Rightarrow> field" where
  "AWG_RESISTANCE = map_of
     [(Fin 10, Fin 0.003277), (Fin 12, Fin 0.005211), (Fin 14, Fin 0.008286),
      (Fin 16, Fin 0.01317), (Fin 18, Fin 0.02095), (Fin 20, Fin 0.03331),
      (Fin 22, Fin 0.05296), (Fin 26, Fin 0.0668)]"

record cell_voltages =
  nominal :: jsnum
  maxV :: jsnum
  minV :: jsnum

definition LiPo :: cell_voltages where
  "LiPo = \<lparr>nominal = Fin 3.7, maxV = Fin 4.2, minV = Fin 3.3\<rparr>"

definition CHEMISTRY :: "string \<Rightarrow> cell_voltages option" where
  "CHEMISTRY = map_of
     [(''LiPo'', LiPo),
      (''Li-ion'', \<lparr>nominal = Fin 3.6, maxV = Fin 4.2, minV = Fin 2.8\<rparr>),
      (''LiHV'', \<lparr>nominal = Fin 3.85, maxV = Fin 4.35, minV = Fin 3.3\<rparr>)]"

text \<open>
  \<open>CHEMISTRY\<close> is a plain object, so \<^verbatim>\<open>CHEMISTRY[c]\<close> also finds the members it
  inherits from \<^verbatim>\<open>Object.prototype\<close>. Such a member is a function or the prototype
  itself: it is truthy, and its \<open>nominal\<close>, \<open>max\<close> and \<open>min\<close> are undefined, which is NaN
  in arithmetic. In \<^verbatim>\<open>CHEMISTRY[c] || CHEMISTRY.LiPo\<close> only a name that is neither an
  own key nor an inherited member falls back to LiPo. The keys of the two numeric tables
  are decimal forms of numbers, none of which is the name of an inherited member.
\<close>

definition Object_prototype_names :: "string list" where
  "Object_prototype_names =
     [''constructor'', ''hasOwnProperty'', ''isPrototypeOf'', ''propertyIsEnumerable'',
      ''toLocaleString'', ''toString'', ''valueOf'', ''__proto__'', ''__defineGetter__'',
      ''__defineSetter__'', ''__lookupGetter__'', ''__lookupSetter__'']"

definition inherited_member :: cell_voltages where
  "inherited_member = \<lparr>nominal = NaN, maxV = NaN, minV = NaN\<rparr>"

definition CHEMISTRY_get :: "string \<Rightarrow> cell_voltages option" where
  "CHEMISTRY_get c =
     (case CHEMISTRY c of
        Some v \<Rightarrow> Some v
      | None \<Rightarrow> if c \<in> set Object_prototype_names then Some inherited_member else None)"

definition chemistry_or_LiPo :: "string \<Rightarrow> cell_voltages" where
  "chemistry_or_LiPo c = (case CHEMISTRY_get c of None \<Rightarrow> LiPo | Some v \<Rightarrow> v)"

section \<open>The physics functions\<close>

definition calcAirDensity :: "jsnum \<Rightarrow> jsnum \<Rightarrow> jsnum" where
  "calcAirDensity altitudeM tempC =
     (let alt = Math_max (Fin 0) (Math_min altitudeM (Fin 11000));
          T = jadd (jsub (jadd tempC (Fin 273.15)) (jmul LAPSE_RATE alt)) (jmul LAPSE_RATE alt);
          exponent = jdiv (jmul GRAVITY MOLAR_MASS_AIR) (jmul UNIVERSAL_GAS_CONSTANT LAPSE_RATE);
          P = jmul SEA_LEVEL_PRESSURE
                (Math_pow (jsub (Fin 1) (jdiv (jmul LAPSE_RATE alt) SEA_LEVEL_TEMP)) exponent);
          T_kelvin = jadd tempC (Fin 273.15)
      in jdiv P (jmul AIR_GAS_CONSTANT T_kelvin))"

definition calcMotorRPM :: "jsnum \<Rightarrow> jsnum \<Rightarrow> jsnum \<Rightarrow> jsnum \<Rightarrow> jsnum" where
  "calcMotorRPM kv voltage current resistance =
     (let backEMF = jsub voltage (jmul current resistance)
      in jmul kv (Math_max (Fin 0) backEMF))"

definition calcThrust :: "jsnum \<Rightarrow> jsnum \<Rightarrow> jsnum \<Rightarrow> jsnum \<Rightarrow> jsnum" where
  "calcThrust ct rho rps diameterM =
     jmul (jmul (jmul (jmul ct rho) rps) rps) (Math_pow diameterM (Fin 4))"

definition calcPropPower :: "jsnum \<Rightarrow> jsnum \<Rightarrow> jsnum \<Rightarrow> jsnum \<Rightarrow> jsnum" where
  "calcPropPower cp rho rps diameterM =
     jmul (jmul (jmul cp rho) (Math_pow rps (Fin 3))) (Math_pow diameterM (Fin 5))"

definition calcMotorElecPower :: "jsnum \<Rightarrow> jsnum \<Rightarrow> jsnum" where
  "calcMotorElecPower voltage current = jmul voltage current"

definition calcMotorEfficiency :: "jsnum \<Rightarrow> jsnum \<Rightarrow> jsnum" where
  "calcMotorEfficiency mechPower elecPower =
     (if jle elecPower (Fin 0) then Fin 0
      else Math_min (Fin 1) (Math_max (Fin 0) (jdiv mechPower elecPower)))"

record prop_coefficients =
  ct :: jsnum
  cp :: jsnum

definition estimatePropCoefficients :: "jsnum \<Rightarrow> jsnum \<Rightarrow> jsnum \<Rightarrow> prop_coefficients" where
  "estimatePropCoefficients diameterIn pitchIn blades =
     (let pitchRatio = jdiv pitchIn diameterIn;
          ct0 = jadd (Fin 0.075) (jmul (Fin 0.045) pitchRatio);
          cp0 = jadd (Fin 0.025) (jmul (Fin 0.035) pitchRatio);
          ct1 = (if blades = Fin 3 then jmul ct0 (Fin 1.15) else ct0);
          cp1 = (if blades = Fin 3 then jmul cp0 (Fin 1.25) else cp0);
          ct2 = Math_max (Fin 0.04) (Math_min (Fin 0.22) ct1);
          cp2 = Math_max (Fin 0.015) (Math_min (Fin 0.12) cp1)
      in \<lparr>ct = ct2, cp = cp2\<rparr>)"

record battery_under_load =
  voltage :: jsnum
  sagVolts :: jsnum

definition calcBatteryVoltageUnderLoad ::
  "jsnum \<Rightarrow> string \<Rightarrow> jsnum \<Rightarrow> jsnum \<Rightarrow> jsnum \<Rightarrow> jsnum \<Rightarrow> battery_under_load" where
  "calcBatteryVoltageUnderLoad cells chemistry currentA capacityMah cRating internalResistanceMohm =
     (let chem = chemistry_or_LiPo chemistry;
          nominalVoltage = jmul (nominal chem) cells;
          minVoltage = jmul (minV chem) cells;
          totalResistance = jmul (jdiv internalResistanceMohm (Fin 1000)) cells;
          sagVolts = jmul currentA totalResistance;
          voltage = Math_max minVoltage (jsub nominalVoltage sagVolts)
      in \<lparr>voltage = voltage, sagVolts = sagVolts\<rparr>)"

definition calcHoverThrottle :: "jsnum \<Rightarrow> jsnum \<Rightarrow> jsnum \<Rightarrow> jsnum \<Rightarrow> jsnum" where
  "calcHoverThrottle totalWeightKg numMotors maxThrustPerMotorN coaxialFactor =
     (let requiredThrust = jmul totalWeightKg GRAVITY;
          effectiveMotors = jmul numMotors coaxialFactor;
          thrustPerMotor = jdiv requiredThrust effectiveMotors
      in if jle maxThrustPerMotorN (Fin 0) then Fin 100
         else let throttleRatio = Math_sqrt (jdiv thrustPerMotor maxThrustPerMotorN)
              in Math_min (Fin 100) (Math_max (Fin 0) (jmul throttleRatio (Fin 100))))"

definition calcFlightTime :: "jsnum \<Rightarrow> jsnum \<Rightarrow> jsnum \<Rightarrow> jsnum" where
  "calcFlightTime capacityMah dischargePercent totalCurrentA =
     (if jle totalCurrentA (Fin 0) then PInf
      else let usableCapacity = jmul capacityMah dischargePercent
           in jmul (jdiv usableCapacity (jmul totalCurrentA (Fin 1000))) (Fin 60))"

definition calcMotorTemp :: "jsnum \<Rightarrow> jsnum \<Rightarrow> jsnum \<Rightarrow> jsnum \<Rightarrow> jsnum" where
  "calcMotorTemp ambientC copperLossW thermalResistanceCW durationS =
     (let tau = Fin 120;
          steadyState = jmul copperLossW thermalResistanceCW
      in jadd ambientC (jmul steadyState (jsub (Fin 1) (Math_exp (jdiv (jneg durationS) tau)))))"

definition calcThrustToWeightRatio :: "jsnum \<Rightarrow> jsnum \<Rightarrow> jsnum" where
  "calcThrustToWeightRatio totalThrustN totalWeightKg =
     (if jle totalWeightKg (Fin 0) then Fin 0
      else jdiv totalThrustN (jmul totalWeightKg GRAVITY))"

definition calcSystemEfficiency :: "jsnum \<Rightarrow> jsnum \<Rightarrow> jsnum" where
  "calcSystemEfficiency thrustN powerW =
     (if jle powerW (Fin 0) then Fin 0
      else jdiv (jdiv (jmul thrustN (Fin 1000)) GRAVITY) powerW)"

record wire_loss =
  resistance :: jsnum
  powerLoss :: jsnum

definition calcWireLoss :: "jsnum \<Rightarrow> jsnum \<Rightarrow> jsnum \<Rightarrow> wire_loss" where
  "calcWireLoss awg lengthCm currentA =
     (let resistancePerM = or_default (AWG_RESISTANCE awg) (ToNumber (AWG_RESISTANCE (Fin 14)));
          resistance = jmul resistancePerM (jdiv lengthCm (Fin 100));
          powerLoss = jmul (jmul currentA currentA) resistance
      in \<lparr>resistance = resistance, powerLoss = powerLoss\<rparr>)"

definition calcCoaxialFactor :: "bool \<Rightarrow> jsnum" where
  "calcCoaxialFactor isCoaxial = (if isCoaxial then Fin 0.85 else Fin 1.0)"

section \<open>The hover computation in rounded arithmetic\<close>

text \<open>
  The numbers of the engine are 64-bit doubles: a multiplication or a division returns the
  exact result rounded to a double, a decimal literal such as \<^verbatim>\<open>9.80665\<close> is the double
  nearest to it, and \<^verbatim>\<open>Math.sqrt\<close> and \<^verbatim>\<open>Math.pow\<close> return doubles. Whether two
  computed quantities are equal depends on this rounding, so the functions that compute
  the hover operating point (\<^verbatim>\<open>calcThrust\<close>, \<^verbatim>\<open>calcHoverThrottle\<close> and the hover lines
  of \<^verbatim>\<open>runFullSimulation\<close>) are modelled a second time, with the rounding of every
  operation written out.

  An arithmetic says how an exact result is rounded, what \<^verbatim>\<open>Math.sqrt\<close> returns on a
  finite nonnegative number and what \<^verbatim>\<open>Math.pow\<close> returns. The special values are
  handled as in the exact model. The integer literals 0, 4 and 100 are doubles and are
  not rounded.
\<close>

record arithmetic =
  fl_round :: "real \<Rightarrow> real"
  fl_sqrt :: "real \<Rightarrow> real"
  fl_pow :: "jsnum \<Rightarrow> jsnum \<Rightarrow> jsnum"

definition round_with :: "(real \<Rightarrow> real) \<Rightarrow> jsnum \<Rightarrow> jsnum" where
  "round_with f x = (case x of Fin r \<Rightarrow> Fin (f r) | PInf \<Rightarrow> PInf | NInf \<Rightarrow> NInf | NaN \<Rightarrow> NaN)"

definition rounded :: "arithmetic \<Rightarrow> jsnum \<Rightarrow> jsnum" where
  "rounded A x = round_with (fl_round A) x"

definition mul_fl :: "arithmetic \<Rightarrow> jsnum \<Rightarrow> jsnum \<Rightarrow> jsnum" where
  "mul_fl A x y = rounded A (jmul x y)"

definition div_fl :: "arithmetic \<Rightarrow> jsnum \<Rightarrow> jsnum \<Rightarrow> jsnum" where
  "div_fl A x y = rounded A (jdiv x y)"

definition Math_sqrt_fl :: "arithmetic \<Rightarrow> jsnum \<Rightarrow> jsnum" where
  "Math_sqrt_fl A x =
     (case x of Fin r \<Rightarrow> if r < 0 then NaN else Fin (fl_sqrt A r)
      | PInf \<Rightarrow> PInf | NInf \<Rightarrow> NaN | NaN \<Rightarrow> NaN)"

definition GRAVITY_fl :: "arithmetic \<Rightarrow> jsnum" where
  "GRAVITY_fl A = rounded A GRAVITY"

definition calcThrust_fl :: "arithmetic \<Rightarrow> jsnum \<Rightarrow> jsnum \<Rightarrow> jsnum \<Rightarrow> jsnum \<Rightarrow> jsnum" where
  "calcThrust_fl A ct' rho rps diameterM =
     mul_fl A (mul_fl A (mul_fl A (mul_fl A ct' rho) rps) rps) (fl_pow A diameterM (Fin 4))"

text \<open>
  The local \<^verbatim>\<open>throttleRatio\<close> of \<^verbatim>\<open>calcHoverThrottle\<close>, and the function itself, which
  returns \<^verbatim>\<open>throttleRatio * 100\<close> clamped to the interval from 0 to 100.
\<close>

definition throttleRatio_fl :: "arithmetic \<Rightarrow> jsnum \<Rightarrow> jsnum \<Rightarrow> jsnum \<Rightarrow> jsnum \<Rightarrow> jsnum" where
  "throttleRatio_fl A totalWeightKg numMotors maxThrustPerMotorN coaxialFactor =
     (let requiredThrust = mul_fl A totalWeightKg (GRAVITY_fl A);
          effectiveMotors = mul_fl A numMotors coaxialFactor;
          thrustPerMotor = div_fl A requiredThrust effectiveMotors
      in Math_sqrt_fl A (div_fl A thrustPerMotor maxThrustPerMotorN))"

definition calcHoverThrottle_fl :: "arithmetic \<Rightarrow> jsnum \<Rightarrow> jsnum \<Rightarrow> jsnum \<Rightarrow> jsnum \<Rightarrow> jsnum" where
  "calcHoverThrottle_fl A totalWeightKg numMotors maxThrustPerMotorN coaxialFactor =
     (if jle maxThrustPerMotorN (Fin 0) then Fin 100
      else let throttleRatio = throttleRatio_fl A totalWeightKg numMotors maxThrustPerMotorN
                 coaxialFactor
           in Math_min (Fin 100) (Math_max (Fin 0) (mul_fl A throttleRatio (Fin 100))))"

text \<open>
  The hover lines of \<^verbatim>\<open>runFullSimulation\<close>, as a function of the locals they read:
  the maximum thrust, the hover throttle, the hover speed and the hover thrust.
\<close>

definition hoverThrustPerMotor_fl ::
  "arithmetic \<Rightarrow> jsnum \<Rightarrow> jsnum \<Rightarrow> jsnum \<Rightarrow> jsnum \<Rightarrow> jsnum \<Rightarrow> jsnum \<Rightarrow> jsnum \<Rightarrow> jsnum" where
  "hoverThrustPerMotor_fl A totalWeightKg numMotors coaxFactor ct' rho maxRPS propDiameterM =
     (let maxThrustPerMotor = calcThrust_fl A ct' rho maxRPS propDiameterM;
          hoverThrottle = calcHoverThrottle_fl A totalWeightKg numMotors maxThrustPerMotor
            coaxFactor;
          hoverRPS = mul_fl A maxRPS (div_fl A hoverThrottle (Fin 100))
      in calcThrust_fl A ct' rho hoverRPS propDiameterM)"

text \<open>
  Exact arithmetic rounds nothing; with it the functions above are the ones of the exact
  model.
\<close>

definition exact_arithmetic :: arithmetic where
  "exact_arithmetic = \<lparr>fl_round = (\<lambda>x. x), fl_sqrt = sqrt, fl_pow = Math_pow\<rparr>"

text \<open>
  Rounding to the nearest double, ties to even: a nonzero \<open>x\<close> whose absolute value lies
  between \<open>2 ^ e\<close> and \<open>2 ^ (e + 1)\<close> is rounded to the nearest multiple of
  \<open>2 ^ (e - 52)\<close>. The exponent is not limited here, so this is the rounding of a double
  operation whose result neither overflows nor falls into the subnormal range. The square root of a double is the
  rounded exact square root.
\<close>

definition round_half_even :: "real \<Rightarrow> int" where
  "round_half_even y =
     (let f = \<lfloor>y\<rfloor>; d = y - of_int f
      in if d < 1 / 2 then f else if 1 / 2 < d then f + 1 else if even f then f else f + 1)"

definition binary64 :: "real \<Rightarrow> real" where
  "binary64 x =
     (if x = 0 then 0
      else let e = \<lfloor>log 2 \<bar>x\<bar>\<rfloor> - 52
           in of_int (round_half_even (x / 2 powr of_int e)) * 2 powr of_int e)"

definition binary64_arithmetic :: arithmetic where
  "binary64_arithmetic =
     \<lparr>fl_round = binary64, fl_sqrt = (\<lambda>x. binary64 (sqrt x)),
      fl_pow = (\<lambda>x y. round_with binary64 (Math_pow x y))\<rparr>"

text \<open>
  The standard model of rounded arithmetic with unit roundoff \<open>u\<close>: every rounded result,
  and every square root, has a relative error of at most \<open>u\<close>. Exact arithmetic satisfies
  it with \<open>u = 0\<close>, rounding to the nearest double with \<open>u = 2\<^sup>-\<^sup>5\<^sup>3\<close>.
\<close>

definition standard_model :: "real \<Rightarrow> arithmetic \<Rightarrow> bool" where
  "standard_model u A \<longleftrightarrow>
     (\<forall>x. \<bar>fl_round A x - x\<bar> \<le> u * \<bar>x\<bar>) \<and> (\<forall>x\<ge>0. \<bar>fl_sqrt A x - sqrt x\<bar> \<le> u * sqrt x)"

text \<open>
  Two nonzero reals of the same sign are near each other in \<open>k\<close> steps when each is at
  least the other times \<open>(1 - u)\<^sup>k\<close> in absolute value.
\<close>

definition near :: "real \<Rightarrow> nat \<Rightarrow> real \<Rightarrow> real \<Rightarrow> bool" where
  "near u k a b \<longleftrightarrow> 0 < a * b \<and> \<bar>a\<bar> * (1 - u) ^ k \<le> \<bar>b\<bar> \<and> \<bar>b\<bar> * (1 - u) ^ k \<le> \<bar>a\<bar>"

section \<open>The configuration\<close>

text \<open>
  A configuration has six sections; each section and each field may be absent. Only the
  fields that \<open>runFullSimulation\<close> reads are modelled. Numeric fields hold numbers,
  \<open>layout\<close> and \<open>chemistry\<close> hold strings.
\<close>

record environment =
  altitude :: field
  temperature :: field

record frame =
  motorCount :: field
  layout :: "string option"
  frameWeight :: field
  payloadWeight :: field
  payloadCurrent :: field
  wheelbaseMm :: field

record battery =
  chemistry :: "string option"
  cellsS :: field
  cellsP :: field
  capacityMah :: field
  cRating :: field
  burstC :: field
  internalResistanceMohm :: field
  weightG :: field
  dischargeDepth :: field

record esc =
  continuousA :: field
  resistanceMohm :: field
  weightG :: field
  wireAwg :: field
  wireLengthCm :: field
  minCells :: field
  maxCells :: field

record motor =
  kv :: field
  resistance :: field
  noLoadCurrent :: field
  maxCurrent :: field
  maxPower :: field
  weightG :: field
  thermalResistance :: field
  minCells :: field
  maxCells :: field

record propeller =
  diameterIn :: field
  pitchIn :: field
  blades :: field
  weightG :: field
  ct :: field
  cp :: field

record config =
  environment :: "environment option"
  frame :: "frame option"
  battery :: "battery option"
  esc :: "esc option"
  motor :: "motor option"
  propeller :: "propeller option"

section \<open>The simulation result\<close>

record validations =
  motorCurrentOk :: bool
  escCurrentOk :: bool
  batteryDischargeOk :: bool
  batteryBurstOk :: bool
  propSizeOk :: bool
  twrOk :: bool
  motorTempOk :: bool
  hoverThrottleOk :: bool
  escVoltageOk :: bool
  motorVoltageOk :: bool

record SimulationResult =
  airDensity :: jsnum
  totalWeightKg :: jsnum
  totalWeightG :: jsnum
  hoverThrottle :: jsnum
  hoverRPM :: jsnum
  hoverCurrentPerMotor :: jsnum
  hoverTotalCurrent :: jsnum
  hoverTotalPower :: jsnum
  hoverEfficiency :: jsnum
  hoverThrustPerMotor :: jsnum
  hoverBatteryVoltage :: jsnum
  hoverBatterySag :: jsnum
  flightTimeMin :: jsnum
  maxThrustPerMotorG :: jsnum
  maxTotalThrustG :: jsnum
  maxRPM :: jsnum
  maxCurrentPerMotor :: jsnum
  maxTotalCurrentDraw :: jsnum
  maxBatteryVoltage :: jsnum
  maxBatterySag :: jsnum
  twr :: jsnum
  wireLossPerMotor :: jsnum
  totalWireLoss :: jsnum
  escPowerLoss :: jsnum
  copperLossPerMotor :: jsnum
  motorTemp5min :: jsnum
  motorEfficiency :: jsnum
  nominalVoltage :: jsnum
  maxVoltage :: jsnum
  maxContinuousCurrent :: jsnum
  totalCapacityMah :: jsnum
  motorMinCells :: jsnum
  motorMaxCells :: jsnum
  escMinCells :: jsnum
  escMaxCells :: jsnum
  batteryCells :: jsnum
  ct :: jsnum
  cp :: jsnum
  validations :: validations
  allValid :: bool
  maxBurstCurrent :: jsnum
  maxPropDiameterMm :: jsnum
  propDiameterMm :: jsnum

section \<open>runFullSimulation\<close>

text \<open>
  Each \<^verbatim>\<open>const\<close> of \<open>runFullSimulation\<close> is a definition of the same name over the
  configuration, in the order of the source. The destructuring
  \<^verbatim>\<open>const { environment = {}, ... } = config\<close> replaces an absent section by the empty
  object, all of whose fields are absent.
\<close>

definition environment :: "config \<Rightarrow> environment" where
  "environment config = (case config.environment config of
     None \<Rightarrow> \<lparr>environment.altitude = None, environment.temperature = None\<rparr>
   | Some e \<Rightarrow> e)"

definition frame :: "config \<Rightarrow> frame" where
  "frame config = (case config.frame config of
     None \<Rightarrow> \<lparr>frame.motorCount = None, frame.layout = None, frame.frameWeight = None,
              frame.payloadWeight = None, frame.payloadCurrent = None,
              frame.wheelbaseMm = None\<rparr>
   | Some f \<Rightarrow> f)"

definition battery :: "config \<Rightarrow> battery" where
  "battery config = (case config.battery config of
     None \<Rightarrow> \<lparr>battery.chemistry = None, battery.cellsS = None, battery.cellsP = None,
              battery.capacityMah = None, battery.cRating = None, battery.burstC = None,
              battery.internalResistanceMohm = None, battery.weightG = None,
              battery.dischargeDepth = None\<rparr>
   | Some b \<Rightarrow> b)"

definition esc :: "config \<Rightarrow> esc" where
  "esc config = (case config.esc config of
     None \<Rightarrow> \<lparr>esc.continuousA = None, esc.resistanceMohm = None, esc.weightG = None,
              esc.wireAwg = None, esc.wireLengthCm = None, esc.minCells = None,
              esc.maxCells = None\<rparr>
   | Some e \<Rightarrow> e)"

definition motor :: "config \<Rightarrow> motor" where
  "motor config = (case config.motor config of
     None \<Rightarrow> \<lparr>motor.kv = None, motor.resistance = None, motor.noLoadCurrent = None,
              motor.maxCurrent = None, motor.maxPower = None, motor.weightG = None,
              motor.thermalResistance = None, motor.minCells = None,
              motor.maxCells = None\<rparr>
   | Some m \<Rightarrow> m)"

definition propeller :: "config \<Rightarrow> propeller" where
  "propeller config = (case config.propeller config of
     None \<Rightarrow> \<lparr>propeller.diameterIn = None, propeller.pitchIn = None,
              propeller.blades = None, propeller.weightG = None, propeller.ct = None,
              propeller.cp = None\<rparr>
   | Some p \<Rightarrow> p)"

subsection \<open>Environment\<close>

definition altitude :: "config \<Rightarrow> jsnum" where
  "altitude c = or_default (environment.altitude (environment c)) (Fin 0)"

definition tempC :: "config \<Rightarrow> jsnum" where
  "tempC c = nullish (environment.temperature (environment c)) (Fin 25)"

definition rho :: "config \<Rightarrow> jsnum" where
  "rho c = calcAirDensity (altitude c) (tempC c)"

subsection \<open>Frame\<close>

definition numMotors :: "config \<Rightarrow> jsnum" where
  "numMotors c = or_default (frame.motorCount (frame c)) (Fin 4)"

definition isCoaxial :: "config \<Rightarrow> bool" where
  "isCoaxial c = (frame.layout (frame c) = Some ''coaxial'')"

definition coaxFactor :: "config \<Rightarrow> jsnum" where
  "coaxFactor c = calcCoaxialFactor (isCoaxial c)"

definition frameWeight :: "config \<Rightarrow> jsnum" where
  "frameWeight c = jdiv (or_default (frame.frameWeight (frame c)) (Fin 0)) (Fin 1000)"

definition payloadWeight :: "config \<Rightarrow> jsnum" where
  "payloadWeight c = jdiv (or_default (frame.payloadWeight (frame c)) (Fin 0)) (Fin 1000)"

definition payloadCurrent :: "config \<Rightarrow> jsnum" where
  "payloadCurrent c = or_default (frame.payloadCurrent (frame c)) (Fin 0)"

subsection \<open>Battery\<close>

definition chem :: "config \<Rightarrow> string" where
  "chem c = or_default_str (battery.chemistry (battery c)) ''LiPo''"

definition cells :: "config \<Rightarrow> jsnum" where
  "cells c = or_default (battery.cellsS (battery c)) (Fin 4)"

definition parallel :: "config \<Rightarrow> jsnum" where
  "parallel c = or_default (battery.cellsP (battery c)) (Fin 1)"

definition capacityMah :: "config \<Rightarrow> jsnum" where
  "capacityMah c = jmul (or_default (battery.capacityMah (battery c)) (Fin 5000)) (parallel c)"

definition cRating :: "config \<Rightarrow> jsnum" where
  "cRating c = or_default (battery.cRating (battery c)) (Fin 20)"

definition burstC :: "config \<Rightarrow> jsnum" where
  "burstC c = or_default (battery.burstC (battery c)) (Fin 40)"

definition internalR :: "config \<Rightarrow> jsnum" where
  "internalR c = or_default (battery.internalResistanceMohm (battery c)) (Fin 5)"

definition batteryWeight :: "config \<Rightarrow> jsnum" where
  "batteryWeight c = jdiv (or_default (battery.weightG (battery c)) (Fin 0)) (Fin 1000)"

definition dischargeDepth :: "config \<Rightarrow> jsnum" where
  "dischargeDepth c = jdiv (or_default (battery.dischargeDepth (battery c)) (Fin 80)) (Fin 100)"

definition chemData :: "config \<Rightarrow> cell_voltages" where
  "chemData c = chemistry_or_LiPo (chem c)"

definition nominalVoltage :: "config \<Rightarrow> jsnum" where
  "nominalVoltage c = jmul (nominal (chemData c)) (cells c)"

definition maxVoltage :: "config \<Rightarrow> jsnum" where
  "maxVoltage c = jmul (maxV (chemData c)) (cells c)"

definition maxContinuousCurrent :: "config \<Rightarrow> jsnum" where
  "maxContinuousCurrent c = jmul (jdiv (capacityMah c) (Fin 1000)) (cRating c)"

subsection \<open>Motor\<close>

definition kv :: "config \<Rightarrow> jsnum" where
  "kv c = or_default (motor.kv (motor c)) (Fin 920)"

definition motorResistance :: "config \<Rightarrow> jsnum" where
  "motorResistance c = or_default (motor.resistance (motor c)) (Fin 0.1)"

definition noLoadCurrent :: "config \<Rightarrow> jsnum" where
  "noLoadCurrent c = or_default (motor.noLoadCurrent (motor c)) (Fin 0.5)"

definition maxMotorCurrent :: "config \<Rightarrow> jsnum" where
  "maxMotorCurrent c = or_default (motor.maxCurrent (motor c)) (Fin 30)"

definition maxMotorPower :: "config \<Rightarrow> jsnum" where
  "maxMotorPower c = or_default (motor.maxPower (motor c)) (Fin 400)"

definition motorWeightG :: "config \<Rightarrow> jsnum" where
  "motorWeightG c = or_default (motor.weightG (motor c)) (Fin 60)"

definition thermalResistance :: "config \<Rightarrow> jsnum" where
  "thermalResistance c = or_default (motor.thermalResistance (motor c)) (Fin 10)"

definition motorMinCells :: "config \<Rightarrow> jsnum" where
  "motorMinCells c = or_default (motor.minCells (motor c)) (Fin 2)"

definition motorMaxCells :: "config \<Rightarrow> jsnum" where
  "motorMaxCells c = or_default (motor.maxCells (motor c)) (Fin 6)"

subsection \<open>ESC\<close>

definition escMaxCurrent :: "config \<Rightarrow> jsnum" where
  "escMaxCurrent c = or_default (esc.continuousA (esc c)) (Fin 30)"

definition escResistance :: "config \<Rightarrow> jsnum" where
  "escResistance c = jdiv (or_default (esc.resistanceMohm (esc c)) (Fin 1)) (Fin 1000)"

definition escWeightG :: "config \<Rightarrow> jsnum" where
  "escWeightG c = or_default (esc.weightG (esc c)) (Fin 10)"

definition wireAWG :: "config \<Rightarrow> jsnum" where
  "wireAWG c = or_default (esc.wireAwg (esc c)) (Fin 14)"

definition wireLengthCm :: "config \<Rightarrow> jsnum" where
  "wireLengthCm c = or_default (esc.wireLengthCm (esc c)) (Fin 20)"

definition escMinCells :: "config \<Rightarrow> jsnum" where
  "escMinCells c = or_default (esc.minCells (esc c)) (Fin 2)"

definition escMaxCells :: "config \<Rightarrow> jsnum" where
  "escMaxCells c = or_default (esc.maxCells (esc c)) (Fin 6)"

subsection \<open>Propeller\<close>

definition propDiameterIn :: "config \<Rightarrow> jsnum" where
  "propDiameterIn c = or_default (propeller.diameterIn (propeller c)) (Fin 10)"

definition propPitchIn :: "config \<Rightarrow> jsnum" where
  "propPitchIn c = or_default (propeller.pitchIn (propeller c)) (Fin 4.5)"

definition propBlades :: "config \<Rightarrow> jsnum" where
  "propBlades c = or_default (propeller.blades (propeller c)) (Fin 2)"

definition propWeightG :: "config \<Rightarrow> jsnum" where
  "propWeightG c = or_default (propeller.weightG (propeller c)) (Fin 15)"

text \<open>
  \<^verbatim>\<open>if (!ct || !cp) { coeffs = estimate...; ct = ct || coeffs.ct; cp = cp || coeffs.cp }\<close>:
  \<open>falsy\<close> is \<^verbatim>\<open>!x\<close>. When the branch is not taken both overrides are truthy numbers.
\<close>

definition falsy :: "field \<Rightarrow> bool" where
  "falsy x = (case x of None \<Rightarrow> True | Some v \<Rightarrow> \<not> truthy v)"

definition coeffs :: "config \<Rightarrow> prop_coefficients" where
  "coeffs c = estimatePropCoefficients (propDiameterIn c) (propPitchIn c) (propBlades c)"

definition ct :: "config \<Rightarrow> jsnum" where
  "ct c = (if falsy (propeller.ct (propeller c)) \<or> falsy (propeller.cp (propeller c))
           then or_default (propeller.ct (propeller c)) (prop_coefficients.ct (coeffs c))
           else ToNumber (propeller.ct (propeller c)))"

definition cp :: "config \<Rightarrow> jsnum" where
  "cp c = (if falsy (propeller.ct (propeller c)) \<or> falsy (propeller.cp (propeller c))
           then or_default (propeller.cp (propeller c)) (prop_coefficients.cp (coeffs c))
           else ToNumber (propeller.cp (propeller c)))"

definition propDiameterM :: "config \<Rightarrow> jsnum" where
  "propDiameterM c = jmul (propDiameterIn c) (Fin 0.0254)"

subsection \<open>Total weight\<close>

definition totalWeightKg :: "config \<Rightarrow> jsnum" where
  "totalWeightKg c =
     jadd (jadd (jadd (frameWeight c) (payloadWeight c)) (batteryWeight c))
       (jdiv (jadd (jadd (jmul (motorWeightG c) (numMotors c)) (jmul (escWeightG c) (numMotors c)))
                (jmul (propWeightG c) (numMotors c)))
          (Fin 1000))"

definition totalWeightG :: "config \<Rightarrow> jsnum" where
  "totalWeightG c = jmul (totalWeightKg c) (Fin 1000)"

subsection \<open>Maximum throttle\<close>

definition maxRPM :: "config \<Rightarrow> jsnum" where
  "maxRPM c = calcMotorRPM (kv c) (maxVoltage c) (noLoadCurrent c) (motorResistance c)"

definition maxRPS :: "config \<Rightarrow> jsnum" where
  "maxRPS c = jdiv (maxRPM c) (Fin 60)"

definition maxThrustPerMotor :: "config \<Rightarrow> jsnum" where
  "maxThrustPerMotor c = calcThrust (ct c) (rho c) (maxRPS c) (propDiameterM c)"

definition maxTotalThrust :: "config \<Rightarrow> jsnum" where
  "maxTotalThrust c = jmul (jmul (maxThrustPerMotor c) (numMotors c)) (coaxFactor c)"

definition maxTotalThrustG :: "config \<Rightarrow> jsnum" where
  "maxTotalThrustG c = jmul (jdiv (maxTotalThrust c) GRAVITY) (Fin 1000)"

subsection \<open>Hover\<close>

definition hoverThrottle :: "config \<Rightarrow> jsnum" where
  "hoverThrottle c =
     calcHoverThrottle (totalWeightKg c) (numMotors c) (maxThrustPerMotor c) (coaxFactor c)"

definition hoverRPS :: "config \<Rightarrow> jsnum" where
  "hoverRPS c = jmul (maxRPS c) (jdiv (hoverThrottle c) (Fin 100))"

definition hoverRPM :: "config \<Rightarrow> jsnum" where
  "hoverRPM c = jmul (hoverRPS c) (Fin 60)"

definition hoverThrustPerMotor :: "config \<Rightarrow> jsnum" where
  "hoverThrustPerMotor c = calcThrust (ct c) (rho c) (hoverRPS c) (propDiameterM c)"

definition hoverMechPower :: "config \<Rightarrow> jsnum" where
  "hoverMechPower c = calcPropPower (cp c) (rho c) (hoverRPS c) (propDiameterM c)"

definition motorEff :: jsnum where
  "motorEff = Fin 0.85"

definition hoverCurrentPerMotor :: "config \<Rightarrow> jsnum" where
  "hoverCurrentPerMotor c =
     jadd (jdiv (hoverMechPower c) (jmul (nominalVoltage c) motorEff)) (noLoadCurrent c)"

definition hoverTotalCurrent :: "config \<Rightarrow> jsnum" where
  "hoverTotalCurrent c = jadd (jmul (hoverCurrentPerMotor c) (numMotors c)) (payloadCurrent c)"

definition hoverBattery :: "config \<Rightarrow> battery_under_load" where
  "hoverBattery c =
     calcBatteryVoltageUnderLoad (cells c) (chem c) (hoverTotalCurrent c) (capacityMah c)
       (cRating c) (internalR c)"

definition hoverElecPowerPerMotor :: "config \<Rightarrow> jsnum" where
  "hoverElecPowerPerMotor c =
     calcMotorElecPower (jmul (jdiv (voltage (hoverBattery c)) (cells c)) (cells c))
       (hoverCurrentPerMotor c)"

definition hoverTotalPower :: "config \<Rightarrow> jsnum" where
  "hoverTotalPower c =
     jadd (jmul (hoverElecPowerPerMotor c) (numMotors c))
       (jmul (payloadCurrent c) (voltage (hoverBattery c)))"

definition hoverEfficiency :: "config \<Rightarrow> jsnum" where
  "hoverEfficiency c =
     calcSystemEfficiency (jmul (jmul (hoverThrustPerMotor c) (numMotors c)) (coaxFactor c))
       (hoverTotalPower c)"

subsection \<open>Flight time, maximum current, losses, temperature\<close>

definition flightTime :: "config \<Rightarrow> jsnum" where
  "flightTime c = calcFlightTime (capacityMah c) (dischargeDepth c) (hoverTotalCurrent c)"

definition maxMechPower :: "config \<Rightarrow> jsnum" where
  "maxMechPower c = calcPropPower (cp c) (rho c) (maxRPS c) (propDiameterM c)"

definition maxCurrentPerMotor :: "config \<Rightarrow> jsnum" where
  "maxCurrentPerMotor c =
     jadd (jdiv (maxMechPower c) (jmul (nominalVoltage c) motorEff)) (noLoadCurrent c)"

definition maxTotalCurrentDraw :: "config \<Rightarrow> jsnum" where
  "maxTotalCurrentDraw c = jadd (jmul (maxCurrentPerMotor c) (numMotors c)) (payloadCurrent c)"

definition maxBattery :: "config \<Rightarrow> battery_under_load" where
  "maxBattery c =
     calcBatteryVoltageUnderLoad (cells c) (chem c) (maxTotalCurrentDraw c) (capacityMah c)
       (cRating c) (internalR c)"

definition wireLoss :: "config \<Rightarrow> wire_loss" where
  "wireLoss c = calcWireLoss (wireAWG c) (wireLengthCm c) (hoverCurrentPerMotor c)"

definition totalWireLoss :: "config \<Rightarrow> jsnum" where
  "totalWireLoss c = jmul (powerLoss (wireLoss c)) (numMotors c)"

definition escPowerLoss :: "config \<Rightarrow> jsnum" where
  "escPowerLoss c =
     jmul (jmul (jmul (hoverCurrentPerMotor c) (hoverCurrentPerMotor c)) (escResistance c))
       (numMotors c)"

definition copperLoss :: "config \<Rightarrow> jsnum" where
  "copperLoss c = jmul (jmul (hoverCurrentPerMotor c) (hoverCurrentPerMotor c)) (motorResistance c)"

definition motorTemp5min :: "config \<Rightarrow> jsnum" where
  "motorTemp5min c = calcMotorTemp (tempC c) (copperLoss c) (thermalResistance c) (Fin 300)"

definition twr :: "config \<Rightarrow> jsnum" where
  "twr c = calcThrustToWeightRatio (maxTotalThrust c) (totalWeightKg c)"

definition motorEffCalc :: "config \<Rightarrow> jsnum" where
  "motorEffCalc c = calcMotorEfficiency (hoverMechPower c) (hoverElecPowerPerMotor c)"

subsection \<open>Validations\<close>

definition maxBurstCurrent :: "config \<Rightarrow> jsnum" where
  "maxBurstCurrent c = jmul (jdiv (capacityMah c) (Fin 1000)) (burstC c)"

definition wheelbaseMm :: "config \<Rightarrow> jsnum" where
  "wheelbaseMm c = or_default (frame.wheelbaseMm (frame c)) (Fin 350)"

definition wbFactors :: "jsnum \<Rightarrow> field" where
  "wbFactors = map_of [(Fin 3, Fin 0.866), (Fin 4, Fin 0.707), (Fin 6, Fin 0.5), (Fin 8, Fin 0.38)]"

definition wbFactor :: "config \<Rightarrow> jsnum" where
  "wbFactor c = or_default (wbFactors (numMotors c)) (Fin 0.5)"

definition maxPropDiameterMm :: "config \<Rightarrow> jsnum" where
  "maxPropDiameterMm c = jmul (wheelbaseMm c) (wbFactor c)"

definition propDiameterMm :: "config \<Rightarrow> jsnum" where
  "propDiameterMm c = jmul (propDiameterIn c) (Fin 25.4)"

definition validations :: "config \<Rightarrow> validations" where
  "validations c =
     \<lparr>motorCurrentOk = jlt (hoverCurrentPerMotor c) (maxMotorCurrent c),
      escCurrentOk = jlt (hoverCurrentPerMotor c) (escMaxCurrent c),
      batteryDischargeOk = jlt (hoverTotalCurrent c) (maxContinuousCurrent c),
      batteryBurstOk = jlt (maxTotalCurrentDraw c) (maxBurstCurrent c),
      propSizeOk = jle (propDiameterMm c) (maxPropDiameterMm c),
      twrOk = jge (twr c) (Fin 2.0),
      motorTempOk = jlt (motorTemp5min c) (Fin 80),
      hoverThrottleOk = jlt (hoverThrottle c) (Fin 60),
      escVoltageOk = (jge (cells c) (escMinCells c) \<and> jle (cells c) (escMaxCells c)),
      motorVoltageOk = (jge (cells c) (motorMinCells c) \<and> jle (cells c) (motorMaxCells c))\<rparr>"

text \<open>\<^verbatim>\<open>Object.values\<close> lists the values of the own properties in insertion order.\<close>

definition Object_values :: "validations \<Rightarrow> bool list" where
  "Object_values v =
     [motorCurrentOk v, escCurrentOk v, batteryDischargeOk v, batteryBurstOk v, propSizeOk v,
      twrOk v, motorTempOk v, hoverThrottleOk v, escVoltageOk v, motorVoltageOk v]"

definition allValid :: "config \<Rightarrow> bool" where
  "allValid c = list_all (\<lambda>b. b) (Object_values (validations c))"

definition runFullSimulation :: "config \<Rightarrow> SimulationResult" where
  "runFullSimulation c =
     \<lparr>SimulationResult.airDensity = rho c,
      SimulationResult.totalWeightKg = totalWeightKg c,
      SimulationResult.totalWeightG = totalWeightG c,
      SimulationResult.hoverThrottle = hoverThrottle c,
      SimulationResult.hoverRPM = hoverRPM c,
      SimulationResult.hoverCurrentPerMotor = hoverCurrentPerMotor c,
      SimulationResult.hoverTotalCurrent = hoverTotalCurrent c,
      SimulationResult.hoverTotalPower = hoverTotalPower c,
      SimulationResult.hoverEfficiency = hoverEfficiency c,
      SimulationResult.hoverThrustPerMotor = jmul (jdiv (hoverThrustPerMotor c) GRAVITY) (Fin 1000),
      SimulationResult.hoverBatteryVoltage = voltage (hoverBattery c),
      SimulationResult.hoverBatterySag = sagVolts (hoverBattery c),
      SimulationResult.flightTimeMin = flightTime c,
      SimulationResult.maxThrustPerMotorG = jmul (jdiv (maxThrustPerMotor c) GRAVITY) (Fin 1000),
      SimulationResult.maxTotalThrustG = maxTotalThrustG c,
      SimulationResult.maxRPM = maxRPM c,
      SimulationResult.maxCurrentPerMotor = maxCurrentPerMotor c,
      SimulationResult.maxTotalCurrentDraw = maxTotalCurrentDraw c,
      SimulationResult.maxBatteryVoltage = voltage (maxBattery c),
      SimulationResult.maxBatterySag = sagVolts (maxBattery c),
      SimulationResult.twr = twr c,
      SimulationResult.wireLossPerMotor = powerLoss (wireLoss c),
      SimulationResult.totalWireLoss = totalWireLoss c,
      SimulationResult.escPowerLoss = escPowerLoss c,
      SimulationResult.copperLossPerMotor = copperLoss c,
      SimulationResult.motorTemp5min = motorTemp5min c,
      SimulationResult.motorEfficiency = motorEffCalc c,
      SimulationResult.nominalVoltage = nominalVoltage c,
      SimulationResult.maxVoltage = maxVoltage c,
      SimulationResult.maxContinuousCurrent = maxContinuousCurrent c,
      SimulationResult.totalCapacityMah = capacityMah c,
      SimulationResult.motorMinCells = motorMinCells c,
      SimulationResult.motorMaxCells = motorMaxCells c,
      SimulationResult.escMinCells = escMinCells c,
      SimulationResult.escMaxCells = escMaxCells c,
      SimulationResult.batteryCells = cells c,
      SimulationResult.ct = ct c,
      SimulationResult.cp = cp c,
      SimulationResult.validations = validations c,
      SimulationResult.allValid = allValid c,
      SimulationResult.maxBurstCurrent = maxBurstCurrent c,
      SimulationResult.maxPropDiameterMm = maxPropDiameterMm c,
      SimulationResult.propDiameterMm = propDiameterMm c\<rparr>"

section \<open>Formulas of the specification\<close>

text \<open>
  The barometric formula as the specification words it,
  \<open>P = P0 \<times> (1 - L \<times> h / T0) ^ (g \<times> M / (R \<times> L))\<close>, over the reals, to be compared with
  what \<open>calcAirDensity\<close> computes.
\<close>

definition barometric_pressure :: "real \<Rightarrow> real" where
  "barometric_pressure h =
     101325 * (1 - 0.0065 * h / 288.15) powr ((9.80665 * 0.0289644) / (8.31447 * 0.0065))"

section \<open>Example configurations\<close>

text \<open>
  The empty configuration \<^verbatim>\<open>{}\<close>, in which every section is absent, and the empty
  configuration with a frame of 100 kg.
\<close>

definition empty_config :: config where
  "empty_config = \<lparr>config.environment = None, config.frame = None, config.battery = None,
     config.esc = None, config.motor = None, config.propeller = None\<rparr>"

definition overweight_config :: config where
  "overweight_config = empty_config\<lparr>config.frame := Some
     \<lparr>frame.motorCount = None, frame.layout = None, frame.frameWeight = Some (Fin 100000),
      frame.payloadWeight = None, frame.payloadCurrent = None, frame.wheelbaseMm = None\<rparr>\<rparr>"


text \<open>The empty configuration with a motor whose \<open>kv\<close> is Infinity.\<close>

definition infinite_kv_config :: config where
  "infinite_kv_config = empty_config\<lparr>config.motor := Some
     \<lparr>motor.kv = Some PInf, motor.resistance = None, motor.noLoadCurrent = None,
      motor.maxCurrent = None, motor.maxPower = None, motor.weightG = None,
      motor.thermalResistance = None, motor.minCells = None, motor.maxCells = None\<rparr>\<rparr>"
section \<open>Resolved inputs and field updates\<close>

text \<open>
  The values that \<open>runFullSimulation\<close> reads from the configuration after defaulting,
  collected in source order; and, for each section, the configuration in which that
  section is replaced by a changed copy of itself.
\<close>

definition resolved :: "config \<Rightarrow> jsnum list \<times> bool \<times> string" where
  "resolved c =
     ([altitude c, tempC c, numMotors c, frameWeight c, payloadWeight c, payloadCurrent c,
       cells c, parallel c, capacityMah c, cRating c, burstC c, internalR c, batteryWeight c,
       dischargeDepth c, kv c, motorResistance c, noLoadCurrent c, maxMotorCurrent c,
       maxMotorPower c, motorWeightG c, thermalResistance c, motorMinCells c, motorMaxCells c,
       escMaxCurrent c, escResistance c, escWeightG c, wireAWG c, wireLengthCm c, escMinCells c,
       escMaxCells c, propDiameterIn c, propPitchIn c, propBlades c, propWeightG c, ct c, cp c,
       wheelbaseMm c],
      isCoaxial c, chem c)"

definition with_environment :: "(environment \<Rightarrow> environment) \<Rightarrow> config \<Rightarrow> config" where
  "with_environment f c = c\<lparr>config.environment := Some (f (environment c))\<rparr>"

definition with_frame :: "(frame \<Rightarrow> frame) \<Rightarrow> config \<Rightarrow> config" where
  "with_frame f c = c\<lparr>config.frame := Some (f (frame c))\<rparr>"

definition with_battery :: "(battery \<Rightarrow> battery) \<Rightarrow> config \<Rightarrow> config" where
  "with_battery f c = c\<lparr>config.battery := Some (f (battery c))\<rparr>"

definition with_esc :: "(esc \<Rightarrow> esc) \<Rightarrow> config \<Rightarrow> config" where
  "with_esc f c = c\<lparr>config.esc := Some (f (esc c))\<rparr>"

definition with_motor :: "(motor \<Rightarrow> motor) \<Rightarrow> config \<Rightarrow> config" where
  "with_motor f c = c\<lparr>config.motor := Some (f (motor c))\<rparr>"

definition with_propeller :: "(propeller \<Rightarrow> propeller) \<Rightarrow> config \<Rightarrow> config" where
  "with_propeller f c = c\<lparr>config.propeller := Some (f (propeller c))\<rparr>"

section \<open>Configurations with finite fields\<close>

text \<open>
  A configuration has finite fields when every numeric field that is supplied is a finite
  number.
\<close>

fun is_fin :: "jsnum \<Rightarrow> bool" where
  "is_fin (Fin a) = True"
| "is_fin PInf = False"
| "is_fin NInf = False"
| "is_fin NaN = False"

definition fin_field :: "field \<Rightarrow> bool" where
  "fin_field x = (case x of None \<Rightarrow> True | Some v \<Rightarrow> is_fin v)"

definition finite_fields :: "config \<Rightarrow> bool" where
  "finite_fields c = list_all fin_field
     [environment.altitude (environment c), environment.temperature (environment c),
      frame.motorCount (frame c), frame.frameWeight (frame c),
      frame.payloadWeight (frame c), frame.payloadCurrent (frame c),
      frame.wheelbaseMm (frame c), battery.cellsS (battery c),
      battery.cellsP (battery c), battery.capacityMah (battery c),
      battery.cRating (battery c), battery.burstC (battery c),
      battery.internalResistanceMohm (battery c), battery.weightG (battery c),
      battery.dischargeDepth (battery c), esc.continuousA (esc c),
      esc.resistanceMohm (esc c), esc.weightG (esc c), esc.wireAwg (esc c),
      esc.wireLengthCm (esc c), esc.minCells (esc c), esc.maxCells (esc c),
      motor.kv (motor c), motor.resistance (motor c), motor.noLoadCurrent (motor c),
      motor.maxCurrent (motor c), motor.maxPower (motor c), motor.weightG (motor c),
      motor.thermalResistance (motor c), motor.minCells (motor c),
      motor.maxCells (motor c), propeller.diameterIn (propeller c),
      propeller.pitchIn (propeller c), propeller.blades (propeller c),
      propeller.weightG (propeller c), propeller.ct (propeller c),
      propeller.cp (propeller c)]"

text \<open>The empty configuration at a temperature of absolute zero, a finite number.\<close>

definition absolute_zero_config :: config where
  "absolute_zero_config = empty_config\<lparr>config.environment := Some
     \<lparr>environment.altitude = None, environment.temperature = Some (Fin (- 273.15))\<rparr>\<rparr>"

text \<open>
  The configuration of the test suite (\<^verbatim>\<open>physics.test.js\<close>, the typical quad), section by
  section; \<open>burstA\<close> of the ESC is not read by the engine.
\<close>

definition test_environment :: environment where
  "test_environment = \<lparr>environment.altitude = Some (Fin 0), environment.temperature = Some (Fin 25)\<rparr>"

definition test_frame :: frame where
  "test_frame = \<lparr>frame.motorCount = Some (Fin 4), frame.layout = Some ''flat'',
     frame.frameWeight = Some (Fin 300), frame.payloadWeight = Some (Fin 0),
     frame.payloadCurrent = Some (Fin 0), frame.wheelbaseMm = None\<rparr>"

definition test_battery :: battery where
  "test_battery = \<lparr>battery.chemistry = Some ''LiPo'', battery.cellsS = Some (Fin 4),
     battery.cellsP = Some (Fin 1), battery.capacityMah = Some (Fin 5000),
     battery.cRating = Some (Fin 20), battery.burstC = Some (Fin 40),
     battery.internalResistanceMohm = Some (Fin 5), battery.weightG = Some (Fin 480),
     battery.dischargeDepth = Some (Fin 80)\<rparr>"

definition test_esc :: esc where
  "test_esc = \<lparr>esc.continuousA = Some (Fin 30), esc.resistanceMohm = Some (Fin 1.5),
     esc.weightG = Some (Fin 8), esc.wireAwg = Some (Fin 14), esc.wireLengthCm = Some (Fin 20),
     esc.minCells = None, esc.maxCells = None\<rparr>"

definition test_motor :: motor where
  "test_motor = \<lparr>motor.kv = Some (Fin 920), motor.resistance = Some (Fin 0.12),
     motor.noLoadCurrent = Some (Fin 0.4), motor.maxCurrent = Some (Fin 20),
     motor.maxPower = Some (Fin 280), motor.weightG = Some (Fin 56),
     motor.thermalResistance = Some (Fin 10), motor.minCells = None, motor.maxCells = None\<rparr>"

definition test_propeller :: propeller where
  "test_propeller = \<lparr>propeller.diameterIn = Some (Fin 10), propeller.pitchIn = Some (Fin 4.5),
     propeller.blades = Some (Fin 2), propeller.weightG = None, propeller.ct = None,
     propeller.cp = None\<rparr>"

definition test_config :: config where
  "test_config = \<lparr>config.environment = Some test_environment, config.frame = Some test_frame,
     config.battery = Some test_battery, config.esc = Some test_esc,
     config.motor = Some test_motor, config.propeller = Some test_propeller\<rparr>"

section \<open>Calling runFullSimulation\<close>

text \<open>
  The only operation of the engine that can throw is the read of a property of
  \<^verbatim>\<open>undefined\<close> or \<^verbatim>\<open>null\<close>. The destructuring
  \<^verbatim>\<open>const { environment = {}, ... } = config\<close> (lines 272 to 279) throws a TypeError when
  \<open>config\<close> itself is undefined or null; it replaces an undefined section by the empty
  object but leaves a null section as it is, and the first read of a property of that
  section (lines 282, 287, 295, 310, 321 and 330, all reached on every call) then throws.
  Arithmetic, comparisons, the \<open>Math\<close> functions and lookups in the constant tables do not
  throw. The argument of a call is the configuration object with its six sections in the
  order environment, frame, battery, esc, motor, propeller.
\<close>

datatype 'a reference = Undefined | Null | Obj 'a

datatype raw_config = Config
  "environment reference" "frame reference" "battery reference"
  "esc reference" "motor reference" "propeller reference"

datatype error = TypeError

fun section_option :: "'a reference \<Rightarrow> 'a option" where
  "section_option (Obj x) = Some x"
| "section_option Undefined = None"
| "section_option Null = None"

fun destructure :: "raw_config \<Rightarrow> config" where
  "destructure (Config e f b s m p) =
     \<lparr>config.environment = section_option e, config.frame = section_option f,
      config.battery = section_option b, config.esc = section_option s,
      config.motor = section_option m, config.propeller = section_option p\<rparr>"

fun null_section :: "raw_config \<Rightarrow> bool" where
  "null_section (Config e f b s m p) =
     (e = Null \<or> f = Null \<or> b = Null \<or> s = Null \<or> m = Null \<or> p = Null)"

definition runFullSimulation_call :: "raw_config reference \<Rightarrow> error + SimulationResult" where
  "runFullSimulation_call arg =
     (case arg of
        Undefined \<Rightarrow> Inl TypeError
      | Null \<Rightarrow> Inl TypeError
      | Obj a \<Rightarrow> if null_section a then Inl TypeError
                 else Inr (runFullSimulation (destructure a)))"

text \<open>The test configuration as an argument, and the same with a null battery.\<close>

definition test_argument :: raw_config where
  "test_argument = Config (Obj test_environment) (Obj test_frame) (Obj test_battery)
     (Obj test_esc) (Obj test_motor) (Obj test_propeller)"

definition null_battery_argument :: raw_config where
  "null_battery_argument = Config (Obj test_environment) (Obj test_frame) Null
     (Obj test_esc) (Obj test_motor) (Obj test_propeller)"

section \<open>Arithmetic on finite numbers\<close>

lemma jsub_Fin [simp]: "jsub (Fin a) (Fin b) = Fin (a - b)"
  by (simp add: jsub_def)

lemma Math_max_Fin [simp]: "Math_max (Fin a) (Fin b) = Fin (max a b)"
  by (simp add: Math_max_def max_def)

lemma Math_min_Fin [simp]: "Math_min (Fin a) (Fin b) = Fin (min a b)"
  by (simp add: Math_min_def min_def)

lemma jmul_commute: "jmul a b = jmul b a"
  by (cases a; cases b) (simp_all add: mult.commute)

section \<open>Facts about the chemistry table\<close>

lemma chemistry_cases:
  assumes "s \<notin> set Object_prototype_names"
  shows "chemistry_or_LiPo s = LiPo
   \<or> chemistry_or_LiPo s = \<lparr>nominal = Fin 3.6, maxV = Fin 4.2, minV = Fin 2.8\<rparr>
   \<or> chemistry_or_LiPo s = \<lparr>nominal = Fin 3.85, maxV = Fin 4.35, minV = Fin 3.3\<rparr>"
  using assms by (simp add: chemistry_or_LiPo_def CHEMISTRY_get_def CHEMISTRY_def)

lemma chemistry_finite:
  assumes "s \<notin> set Object_prototype_names"
  shows "\<exists>n m x. nominal (chemistry_or_LiPo s) = Fin n \<and> minV (chemistry_or_LiPo s) = Fin m
     \<and> maxV (chemistry_or_LiPo s) = Fin x \<and> 0 < m \<and> m < n"
  using chemistry_cases [OF assms]
proof (elim disjE)
  assume "chemistry_or_LiPo s = LiPo"
  then have "nominal (chemistry_or_LiPo s) = Fin 3.7 \<and> minV (chemistry_or_LiPo s) = Fin 3.3
      \<and> maxV (chemistry_or_LiPo s) = Fin 4.2 \<and> (0::real) < 3.3 \<and> (3.3::real) < 3.7"
    by (simp add: LiPo_def)
  then show ?thesis by blast
next
  assume "chemistry_or_LiPo s = \<lparr>nominal = Fin 3.6, maxV = Fin 4.2, minV = Fin 2.8\<rparr>"
  then have "nominal (chemistry_or_LiPo s) = Fin 3.6 \<and> minV (chemistry_or_LiPo s) = Fin 2.8
      \<and> maxV (chemistry_or_LiPo s) = Fin 4.2 \<and> (0::real) < 2.8 \<and> (2.8::real) < 3.6"
    by simp
  then show ?thesis by blast
next
  assume "chemistry_or_LiPo s = \<lparr>nominal = Fin 3.85, maxV = Fin 4.35, minV = Fin 3.3\<rparr>"
  then have "nominal (chemistry_or_LiPo s) = Fin 3.85 \<and> minV (chemistry_or_LiPo s) = Fin 3.3
      \<and> maxV (chemistry_or_LiPo s) = Fin 4.35 \<and> (0::real) < 3.3 \<and> (3.3::real) < 3.85"
    by simp
  then show ?thesis by blast
qed

lemma chemistry_inherited:
  assumes "s \<in> set Object_prototype_names"
  shows "chemistry_or_LiPo s = inherited_member"
  using assms
  by (auto simp: chemistry_or_LiPo_def CHEMISTRY_get_def CHEMISTRY_def Object_prototype_names_def)

section \<open>Facts about the air density\<close>

lemma altitude_clamp:
  assumes "A \<noteq> NaN"
  shows "\<exists>a. 0 \<le> a \<and> a \<le> 11000 \<and> Math_max (Fin 0) (Math_min A (Fin 11000)) = Fin a"
proof (cases A)
  case (Fin x)
  then have "0 \<le> max 0 (min x 11000) \<and> max 0 (min x 11000) \<le> 11000
      \<and> Math_max (Fin 0) (Math_min A (Fin 11000)) = Fin (max 0 (min x 11000))"
    by simp
  then show ?thesis by blast
next
  case PInf
  then have "(0::real) \<le> 11000 \<and> (11000::real) \<le> 11000
      \<and> Math_max (Fin 0) (Math_min A (Fin 11000)) = Fin 11000"
    by (simp add: Math_min_def Math_max_def)
  then show ?thesis by blast
next
  case NInf
  then have "(0::real) \<le> 0 \<and> (0::real) \<le> 11000
      \<and> Math_max (Fin 0) (Math_min A (Fin 11000)) = Fin 0"
    by (simp add: Math_min_def Math_max_def)
  then show ?thesis by blast
next
  case NaN
  with assms show ?thesis by simp
qed

lemma calcAirDensity_clamped:
  assumes alt: "Math_max (Fin 0) (Math_min A (Fin 11000)) = Fin a"
    and a: "0 \<le> a" "a \<le> 11000" and t: "t \<noteq> - 273.15"
  shows "calcAirDensity A (Fin t) = Fin (barometric_pressure a / (287.058 * (t + 273.15)))"
proof -
  have base: "0 < 1 - 0.0065 * a / 288.15" using a by simp
  have pw: "Math_pow (Fin (1 - 0.0065 * a / 288.15))
        (Fin ((9.80665 * 0.0289644) / (8.31447 * 0.0065)))
      = Fin ((1 - 0.0065 * a / 288.15) powr ((9.80665 * 0.0289644) / (8.31447 * 0.0065)))"
    using base by (simp add: finite_pow_def)
  have T: "287.058 * (t + 273.15) \<noteq> 0" using t by simp
  show ?thesis
    unfolding calcAirDensity_def Let_def alt
    using pw T base
    by (simp add: SEA_LEVEL_PRESSURE_def SEA_LEVEL_TEMP_def LAPSE_RATE_def
        AIR_GAS_CONSTANT_def GRAVITY_def MOLAR_MASS_AIR_def UNIVERSAL_GAS_CONSTANT_def
        barometric_pressure_def)
qed

lemma calcAirDensity_Fin:
  assumes "t \<noteq> - 273.15"
  shows "calcAirDensity (Fin h) (Fin t) =
           Fin (barometric_pressure (max 0 (min h 11000)) / (287.058 * (t + 273.15)))"
  by (rule calcAirDensity_clamped [OF _ _ _ assms]) simp_all

lemma barometric_pressure_range:
  assumes "0 \<le> a" "a \<le> 11000"
  shows "0 < barometric_pressure a" "barometric_pressure a \<le> 101325"
proof -
  have base: "0 < 1 - 0.0065 * a / 288.15" "1 - 0.0065 * a / 288.15 \<le> 1" using assms by simp_all
  have "(1 - 0.0065 * a / 288.15) powr ((9.80665 * 0.0289644) / (8.31447 * 0.0065)) \<le> 1"
    using base by (intro powr_le1) simp_all
  then show "barometric_pressure a \<le> 101325" by (simp add: barometric_pressure_def)
  show "0 < barometric_pressure a" using base by (simp add: barometric_pressure_def)
qed

section \<open>Unfolding the locals of runFullSimulation\<close>

lemmas section_defs = environment_def frame_def battery_def esc_def motor_def propeller_def

lemmas input_defs = altitude_def tempC_def numMotors_def isCoaxial_def coaxFactor_def
  frameWeight_def payloadWeight_def payloadCurrent_def chem_def cells_def parallel_def
  capacityMah_def cRating_def burstC_def internalR_def batteryWeight_def dischargeDepth_def
  chemData_def nominalVoltage_def maxVoltage_def maxContinuousCurrent_def kv_def
  motorResistance_def noLoadCurrent_def maxMotorCurrent_def maxMotorPower_def motorWeightG_def
  thermalResistance_def motorMinCells_def motorMaxCells_def escMaxCurrent_def escResistance_def
  escWeightG_def wireAWG_def wireLengthCm_def escMinCells_def escMaxCells_def propDiameterIn_def
  propPitchIn_def propBlades_def propWeightG_def falsy_def coeffs_def ct_def cp_def
  propDiameterM_def wheelbaseMm_def

lemmas js_defs = or_default_def nullish_def ToNumber_def or_default_str_def
  chemistry_or_LiPo_def CHEMISTRY_get_def CHEMISTRY_def Object_prototype_names_def LiPo_def
  calcCoaxialFactor_def

lemmas const_defs = SEA_LEVEL_PRESSURE_def SEA_LEVEL_TEMP_def LAPSE_RATE_def AIR_GAS_CONSTANT_def
  GRAVITY_def MOLAR_MASS_AIR_def UNIVERSAL_GAS_CONSTANT_def

section \<open>Facts about the resolved inputs\<close>

lemma jmul_eq_FinD:
  assumes "jmul a b = Fin z"
  obtains x y where "a = Fin x" "b = Fin y" "z = x * y"
  using assms by (cases a; cases b) (simp_all add: signed_inf_def split: if_splits)

lemma truthy_or_default: "truthy d \<Longrightarrow> truthy (or_default x d)"
  by (simp add: or_default_def split: option.splits)

lemma numMotors_nonzero: "numMotors c \<noteq> Fin 0"
proof -
  have "truthy (numMotors c)" unfolding numMotors_def by (rule truthy_or_default) simp
  then show ?thesis by auto
qed

lemma or_default_not_NaN: "d \<noteq> NaN \<Longrightarrow> or_default x d \<noteq> NaN"
  by (auto simp: or_default_def split: option.splits)

lemma altitude_not_NaN: "altitude c \<noteq> NaN"
  unfolding altitude_def by (rule or_default_not_NaN) simp

lemma rho_default:
  "environment c = \<lparr>environment.altitude = None, environment.temperature = None\<rparr>
   \<Longrightarrow> rho c = Fin (337750000 / 285287809)"
  by (simp add: rho_def altitude_def tempC_def js_defs calcAirDensity_def Let_def const_defs
      finite_pow_def)

section \<open>The result depends on the resolved inputs only\<close>

lemmas derived_defs = rho_def coaxFactor_def chemData_def nominalVoltage_def maxVoltage_def
  maxContinuousCurrent_def propDiameterM_def totalWeightKg_def totalWeightG_def maxRPM_def
  maxRPS_def maxThrustPerMotor_def maxTotalThrust_def maxTotalThrustG_def hoverThrottle_def
  hoverRPS_def hoverRPM_def hoverThrustPerMotor_def hoverMechPower_def hoverCurrentPerMotor_def
  hoverTotalCurrent_def hoverBattery_def hoverElecPowerPerMotor_def hoverTotalPower_def
  hoverEfficiency_def flightTime_def maxMechPower_def maxCurrentPerMotor_def
  maxTotalCurrentDraw_def maxBattery_def wireLoss_def totalWireLoss_def escPowerLoss_def
  copperLoss_def motorTemp5min_def twr_def motorEffCalc_def maxBurstCurrent_def wbFactor_def
  maxPropDiameterMm_def propDiameterMm_def validations_def allValid_def

lemma runFullSimulation_resolved:
  assumes "resolved c1 = resolved c2"
  shows "runFullSimulation c1 = runFullSimulation c2"
  using assms unfolding resolved_def runFullSimulation_def derived_defs
  by simp

lemma or_default_falsy [simp]:
  "or_default None d = d"
  "or_default (Some (Fin 0)) d = d"
  "or_default_str None s = s"
  "or_default_str (Some []) s = s"
  by (simp_all add: or_default_def or_default_str_def)

lemma falsy_simps [simp]: "falsy None" "falsy (Some (Fin 0))"
  by (simp_all add: falsy_def)

lemma section_of_with [simp]:
  "environment (with_environment f0 c) = f0 (environment c)"
  "frame (with_environment f0 c) = frame c"
  "battery (with_environment f0 c) = battery c"
  "esc (with_environment f0 c) = esc c"
  "motor (with_environment f0 c) = motor c"
  "propeller (with_environment f0 c) = propeller c"
  "environment (with_frame f1 c) = environment c"
  "frame (with_frame f1 c) = f1 (frame c)"
  "battery (with_frame f1 c) = battery c"
  "esc (with_frame f1 c) = esc c"
  "motor (with_frame f1 c) = motor c"
  "propeller (with_frame f1 c) = propeller c"
  "environment (with_battery f2 c) = environment c"
  "frame (with_battery f2 c) = frame c"
  "battery (with_battery f2 c) = f2 (battery c)"
  "esc (with_battery f2 c) = esc c"
  "motor (with_battery f2 c) = motor c"
  "propeller (with_battery f2 c) = propeller c"
  "environment (with_esc f3 c) = environment c"
  "frame (with_esc f3 c) = frame c"
  "battery (with_esc f3 c) = battery c"
  "esc (with_esc f3 c) = f3 (esc c)"
  "motor (with_esc f3 c) = motor c"
  "propeller (with_esc f3 c) = propeller c"
  "environment (with_motor f4 c) = environment c"
  "frame (with_motor f4 c) = frame c"
  "battery (with_motor f4 c) = battery c"
  "esc (with_motor f4 c) = esc c"
  "motor (with_motor f4 c) = f4 (motor c)"
  "propeller (with_motor f4 c) = propeller c"
  "environment (with_propeller f5 c) = environment c"
  "frame (with_propeller f5 c) = frame c"
  "battery (with_propeller f5 c) = battery c"
  "esc (with_propeller f5 c) = esc c"
  "motor (with_propeller f5 c) = motor c"
  "propeller (with_propeller f5 c) = f5 (propeller c)"
  by (simp_all add: section_defs with_environment_def with_frame_def with_battery_def with_esc_def with_motor_def with_propeller_def)

lemma zero_is_absent_environment:
  "resolved (with_environment (\<lambda>s. s\<lparr>environment.altitude := Some (Fin 0)\<rparr>) c) =
     resolved (with_environment (\<lambda>s. s\<lparr>environment.altitude := None\<rparr>) c)"
  by (simp_all add: resolved_def input_defs)

lemma zero_is_absent_frame:
  "resolved (with_frame (\<lambda>s. s\<lparr>frame.motorCount := Some (Fin 0)\<rparr>) c) =
     resolved (with_frame (\<lambda>s. s\<lparr>frame.motorCount := None\<rparr>) c)"
  "resolved (with_frame (\<lambda>s. s\<lparr>frame.frameWeight := Some (Fin 0)\<rparr>) c) =
     resolved (with_frame (\<lambda>s. s\<lparr>frame.frameWeight := None\<rparr>) c)"
  "resolved (with_frame (\<lambda>s. s\<lparr>frame.payloadWeight := Some (Fin 0)\<rparr>) c) =
     resolved (with_frame (\<lambda>s. s\<lparr>frame.payloadWeight := None\<rparr>) c)"
  "resolved (with_frame (\<lambda>s. s\<lparr>frame.payloadCurrent := Some (Fin 0)\<rparr>) c) =
     resolved (with_frame (\<lambda>s. s\<lparr>frame.payloadCurrent := None\<rparr>) c)"
  "resolved (with_frame (\<lambda>s. s\<lparr>frame.wheelbaseMm := Some (Fin 0)\<rparr>) c) =
     resolved (with_frame (\<lambda>s. s\<lparr>frame.wheelbaseMm := None\<rparr>) c)"
  "resolved (with_frame (\<lambda>s. s\<lparr>frame.layout := Some []\<rparr>) c) =
     resolved (with_frame (\<lambda>s. s\<lparr>frame.layout := None\<rparr>) c)"
  by (simp_all add: resolved_def input_defs)

lemma zero_is_absent_battery:
  "resolved (with_battery (\<lambda>s. s\<lparr>battery.cellsS := Some (Fin 0)\<rparr>) c) =
     resolved (with_battery (\<lambda>s. s\<lparr>battery.cellsS := None\<rparr>) c)"
  "resolved (with_battery (\<lambda>s. s\<lparr>battery.cellsP := Some (Fin 0)\<rparr>) c) =
     resolved (with_battery (\<lambda>s. s\<lparr>battery.cellsP := None\<rparr>) c)"
  "resolved (with_battery (\<lambda>s. s\<lparr>battery.capacityMah := Some (Fin 0)\<rparr>) c) =
     resolved (with_battery (\<lambda>s. s\<lparr>battery.capacityMah := None\<rparr>) c)"
  "resolved (with_battery (\<lambda>s. s\<lparr>battery.cRating := Some (Fin 0)\<rparr>) c) =
     resolved (with_battery (\<lambda>s. s\<lparr>battery.cRating := None\<rparr>) c)"
  "resolved (with_battery (\<lambda>s. s\<lparr>battery.burstC := Some (Fin 0)\<rparr>) c) =
     resolved (with_battery (\<lambda>s. s\<lparr>battery.burstC := None\<rparr>) c)"
  "resolved (with_battery (\<lambda>s. s\<lparr>battery.internalResistanceMohm := Some (Fin 0)\<rparr>) c) =
     resolved (with_battery (\<lambda>s. s\<lparr>battery.internalResistanceMohm := None\<rparr>) c)"
  "resolved (with_battery (\<lambda>s. s\<lparr>battery.weightG := Some (Fin 0)\<rparr>) c) =
     resolved (with_battery (\<lambda>s. s\<lparr>battery.weightG := None\<rparr>) c)"
  "resolved (with_battery (\<lambda>s. s\<lparr>battery.dischargeDepth := Some (Fin 0)\<rparr>) c) =
     resolved (with_battery (\<lambda>s. s\<lparr>battery.dischargeDepth := None\<rparr>) c)"
  "resolved (with_battery (\<lambda>s. s\<lparr>battery.chemistry := Some []\<rparr>) c) =
     resolved (with_battery (\<lambda>s. s\<lparr>battery.chemistry := None\<rparr>) c)"
  by (simp_all add: resolved_def input_defs)

lemma zero_is_absent_esc:
  "resolved (with_esc (\<lambda>s. s\<lparr>esc.continuousA := Some (Fin 0)\<rparr>) c) =
     resolved (with_esc (\<lambda>s. s\<lparr>esc.continuousA := None\<rparr>) c)"
  "resolved (with_esc (\<lambda>s. s\<lparr>esc.resistanceMohm := Some (Fin 0)\<rparr>) c) =
     resolved (with_esc (\<lambda>s. s\<lparr>esc.resistanceMohm := None\<rparr>) c)"
  "resolved (with_esc (\<lambda>s. s\<lparr>esc.weightG := Some (Fin 0)\<rparr>) c) =
     resolved (with_esc (\<lambda>s. s\<lparr>esc.weightG := None\<rparr>) c)"
  "resolved (with_esc (\<lambda>s. s\<lparr>esc.wireAwg := Some (Fin 0)\<rparr>) c) =
     resolved (with_esc (\<lambda>s. s\<lparr>esc.wireAwg := None\<rparr>) c)"
  "resolved (with_esc (\<lambda>s. s\<lparr>esc.wireLengthCm := Some (Fin 0)\<rparr>) c) =
     resolved (with_esc (\<lambda>s. s\<lparr>esc.wireLengthCm := None\<rparr>) c)"
  "resolved (with_esc (\<lambda>s. s\<lparr>esc.minCells := Some (Fin 0)\<rparr>) c) =
     resolved (with_esc (\<lambda>s. s\<lparr>esc.minCells := None\<rparr>) c)"
  "resolved (with_esc (\<lambda>s. s\<lparr>esc.maxCells := Some (Fin 0)\<rparr>) c) =
     resolved (with_esc (\<lambda>s. s\<lparr>esc.maxCells := None\<rparr>) c)"
  by (simp_all add: resolved_def input_defs)

lemma zero_is_absent_motor:
  "resolved (with_motor (\<lambda>s. s\<lparr>motor.kv := Some (Fin 0)\<rparr>) c) =
     resolved (with_motor (\<lambda>s. s\<lparr>motor.kv := None\<rparr>) c)"
  "resolved (with_motor (\<lambda>s. s\<lparr>motor.resistance := Some (Fin 0)\<rparr>) c) =
     resolved (with_motor (\<lambda>s. s\<lparr>motor.resistance := None\<rparr>) c)"
  "resolved (with_motor (\<lambda>s. s\<lparr>motor.noLoadCurrent := Some (Fin 0)\<rparr>) c) =
     resolved (with_motor (\<lambda>s. s\<lparr>motor.noLoadCurrent := None\<rparr>) c)"
  "resolved (with_motor (\<lambda>s. s\<lparr>motor.maxCurrent := Some (Fin 0)\<rparr>) c) =
     resolved (with_motor (\<lambda>s. s\<lparr>motor.maxCurrent := None\<rparr>) c)"
  "resolved (with_motor (\<lambda>s. s\<lparr>motor.maxPower := Some (Fin 0)\<rparr>) c) =
     resolved (with_motor (\<lambda>s. s\<lparr>motor.maxPower := None\<rparr>) c)"
  "resolved (with_motor (\<lambda>s. s\<lparr>motor.weightG := Some (Fin 0)\<rparr>) c) =
     resolved (with_motor (\<lambda>s. s\<lparr>motor.weightG := None\<rparr>) c)"
  "resolved (with_motor (\<lambda>s. s\<lparr>motor.thermalResistance := Some (Fin 0)\<rparr>) c) =
     resolved (with_motor (\<lambda>s. s\<lparr>motor.thermalResistance := None\<rparr>) c)"
  "resolved (with_motor (\<lambda>s. s\<lparr>motor.minCells := Some (Fin 0)\<rparr>) c) =
     resolved (with_motor (\<lambda>s. s\<lparr>motor.minCells := None\<rparr>) c)"
  "resolved (with_motor (\<lambda>s. s\<lparr>motor.maxCells := Some (Fin 0)\<rparr>) c) =
     resolved (with_motor (\<lambda>s. s\<lparr>motor.maxCells := None\<rparr>) c)"
  by (simp_all add: resolved_def input_defs)

lemma zero_is_absent_propeller:
  "resolved (with_propeller (\<lambda>s. s\<lparr>propeller.diameterIn := Some (Fin 0)\<rparr>) c) =
     resolved (with_propeller (\<lambda>s. s\<lparr>propeller.diameterIn := None\<rparr>) c)"
  "resolved (with_propeller (\<lambda>s. s\<lparr>propeller.pitchIn := Some (Fin 0)\<rparr>) c) =
     resolved (with_propeller (\<lambda>s. s\<lparr>propeller.pitchIn := None\<rparr>) c)"
  "resolved (with_propeller (\<lambda>s. s\<lparr>propeller.blades := Some (Fin 0)\<rparr>) c) =
     resolved (with_propeller (\<lambda>s. s\<lparr>propeller.blades := None\<rparr>) c)"
  "resolved (with_propeller (\<lambda>s. s\<lparr>propeller.weightG := Some (Fin 0)\<rparr>) c) =
     resolved (with_propeller (\<lambda>s. s\<lparr>propeller.weightG := None\<rparr>) c)"
  "resolved (with_propeller (\<lambda>s. s\<lparr>propeller.ct := Some (Fin 0)\<rparr>) c) =
     resolved (with_propeller (\<lambda>s. s\<lparr>propeller.ct := None\<rparr>) c)"
  "resolved (with_propeller (\<lambda>s. s\<lparr>propeller.cp := Some (Fin 0)\<rparr>) c) =
     resolved (with_propeller (\<lambda>s. s\<lparr>propeller.cp := None\<rparr>) c)"
  by (simp_all add: resolved_def input_defs)

section \<open>The validation checks\<close>

lemmas test_defs = test_config_def test_environment_def test_frame_def test_battery_def
  test_esc_def test_motor_def test_propeller_def

lemma test_values:
  "numMotors test_config = Fin 4"
  "coaxFactor test_config = Fin 1"
  "totalWeightKg test_config = Fin (137 / 125)"
  "ct test_config = Fin (381 / 4000)"
  "maxRPS test_config = Fin (32108 / 125)"
  "propDiameterM test_config = Fin (254 / 1000)"
  "cells test_config = Fin 4"
  "escMinCells test_config = Fin 2"
  "escMaxCells test_config = Fin 6"
  "motorMinCells test_config = Fin 2"
  "motorMaxCells test_config = Fin 6"
  "propDiameterMm test_config = Fin 254"
  "maxPropDiameterMm test_config = Fin (4949 / 20)"
  by (simp_all add: totalWeightKg_def maxRPS_def maxRPM_def calcMotorRPM_def
      propDiameterMm_def maxPropDiameterMm_def wbFactor_def wbFactors_def
      input_defs section_defs js_defs test_defs estimatePropCoefficients_def Let_def)

lemma test_electrical:
  "cp test_config = Fin (163 / 4000)"
  "nominalVoltage test_config = Fin (74 / 5)"
  "noLoadCurrent test_config = Fin (2 / 5)"
  "payloadCurrent test_config = Fin 0"
  "motorResistance test_config = Fin (3 / 25)"
  "thermalResistance test_config = Fin 10"
  "tempC test_config = Fin 25"
  "maxMotorCurrent test_config = Fin 20"
  "escMaxCurrent test_config = Fin 30"
  "maxContinuousCurrent test_config = Fin 100"
  "maxBurstCurrent test_config = Fin 200"
  by (simp_all add: maxBurstCurrent_def input_defs section_defs js_defs test_defs
      estimatePropCoefficients_def Let_def)

lemma test_rho: "rho test_config = Fin (337750000 / 285287809)"
  by (simp add: rho_def altitude_def tempC_def section_defs js_defs test_defs
      calcAirDensity_def Let_def const_defs finite_pow_def)

lemma test_maxThrust:
  "maxThrustPerMotor test_config = Fin (8627833082450452262259 / 278601375976562500000)"
  by (simp add: maxThrustPerMotor_def calcThrust_def test_values test_rho finite_pow_def
      power_divide)

lemma test_throttle_value:
  obtains h where "hoverThrottle test_config = Fin h" "0 \<le> h" "h < 30"
proof -
  let ?q = "137 / 125 * 9.80665 / (4 * 1)
      / (8627833082450452262259 / 278601375976562500000) :: real"
  have "?q < (3 / 10)\<^sup>2" by (simp add: power2_eq_square)
  then have "sqrt ?q < sqrt ((3 / 10)\<^sup>2)" by (rule real_sqrt_less_mono)
  then have "sqrt ?q < 3 / 10" by simp
  then have "min 100 (max 0 (sqrt ?q * 100)) < 30" "0 \<le> min 100 (max 0 (sqrt ?q * 100))"
    by (simp_all add: min_def max_def)
  moreover have "hoverThrottle test_config = Fin (min 100 (max 0 (sqrt ?q * 100)))"
    unfolding hoverThrottle_def test_values test_maxThrust calcHoverThrottle_def Let_def
      GRAVITY_def
    by (simp del: divide_divide_eq_left mult_1_right)
  ultimately show ?thesis using that by blast
qed

lemma test_hoverCurrent:
  obtains i where "hoverCurrentPerMotor test_config = Fin i" "2 / 5 \<le> i" "i < 3"
proof -
  obtain h where h: "hoverThrottle test_config = Fin h" "0 \<le> h" "h < 30"
    by (rule test_throttle_value)
  define x where "x = 32108 / 125 * (h / 100)"
  have x: "0 \<le> x" "x \<le> 78" using h(2,3) by (simp_all add: x_def)
  have rps: "hoverRPS test_config = Fin x"
    by (simp add: hoverRPS_def h(1) test_values x_def)
  define y where "y = (if x = 0 then 0 else x powr 3)"
  have p: "Math_pow (Fin x) (Fin 3) = Fin y"
    using x(1) by (simp add: finite_pow_def y_def)
  have "x ^ 3 \<le> 78 ^ 3" using x by (intro power_mono)
  then have y: "0 \<le> y" "y \<le> 474552" using x(1) by (auto simp: y_def)
  define i where "i = 163 / 4000 * (337750000 / 285287809) * y * (254 / 1000) ^ 5
      / (74 / 5 * (85 / 100)) + 2 / 5"
  have "hoverMechPower test_config =
      Fin (163 / 4000 * (337750000 / 285287809) * y * (254 / 1000) ^ 5)"
    unfolding hoverMechPower_def calcPropPower_def rps p test_values test_electrical test_rho
    by (simp add: finite_pow_def)
  then have c: "hoverCurrentPerMotor test_config = Fin i"
    unfolding hoverCurrentPerMotor_def test_electrical motorEff_def i_def by simp
  have "0 \<le> 163 / 4000 * (337750000 / 285287809) * y * (254 / 1000) ^ 5
      / (74 / 5 * (85 / 100))" using y(1) by simp
  then have lo: "2 / 5 \<le> i" by (simp add: i_def)
  have "163 / 4000 * (337750000 / 285287809) * y * (254 / 1000) ^ 5 / (74 / 5 * (85 / 100))
      \<le> 163 / 4000 * (337750000 / 285287809) * 474552 * (254 / 1000) ^ 5 / (74 / 5 * (85 / 100))"
    using y(2) by (intro divide_right_mono mult_right_mono mult_left_mono) simp_all
  also have "\<dots> < 13 / 5" by (simp add: power_divide)
  finally have hi: "i < 3" by (simp add: i_def)
  from c lo hi show ?thesis using that by blast
qed

lemma test_current_checks:
  "jlt (hoverCurrentPerMotor test_config) (maxMotorCurrent test_config)"
  "jlt (hoverCurrentPerMotor test_config) (escMaxCurrent test_config)"
  "jlt (hoverTotalCurrent test_config) (maxContinuousCurrent test_config)"
  "jlt (motorTemp5min test_config) (Fin 80)"
proof -
  obtain i where i: "hoverCurrentPerMotor test_config = Fin i" "2 / 5 \<le> i" "i < 3"
    by (rule test_hoverCurrent)
  show "jlt (hoverCurrentPerMotor test_config) (maxMotorCurrent test_config)"
    using i by (simp add: test_electrical)
  show "jlt (hoverCurrentPerMotor test_config) (escMaxCurrent test_config)"
    using i by (simp add: test_electrical)
  show "jlt (hoverTotalCurrent test_config) (maxContinuousCurrent test_config)"
    using i by (simp add: hoverTotalCurrent_def test_electrical test_values)
  have "i * i \<le> 3 * 3" using i by (intro mult_mono) simp_all
  then have l: "i * i * (3 / 25) * 10 \<le> 54 / 5" "0 \<le> i * i * (3 / 25) * 10" by simp_all
  have e: "0 < exp (- (300 / 120) :: real)" by simp
  have "i * i * (3 / 25) * 10 * (1 - exp (- (300 / 120))) \<le> i * i * (3 / 25) * 10 * 1"
    using l(2) e by (intro mult_left_mono) simp_all
  with l(1) have "25 + i * i * (3 / 25) * 10 * (1 - exp (- (300 / 120))) < 80" by simp
  moreover have "motorTemp5min test_config =
      Fin (25 + i * i * (3 / 25) * 10 * (1 - exp (- (300 / 120))))"
    unfolding motorTemp5min_def copperLoss_def calcMotorTemp_def Let_def i(1) test_electrical
    by (simp add: jsub_def)
  ultimately show "jlt (motorTemp5min test_config) (Fin 80)" by simp
qed

lemma test_burst: "\<not> jlt (maxTotalCurrentDraw test_config) (maxBurstCurrent test_config)"
  by (simp add: maxTotalCurrentDraw_def maxCurrentPerMotor_def maxMechPower_def
      calcPropPower_def motorEff_def test_values test_electrical test_rho finite_pow_def
      power_divide)


lemma test_twr: "twr test_config = Fin (4930190332828829864148 / 427776031051104296875)"
  by (simp add: twr_def maxTotalThrust_def calcThrustToWeightRatio_def test_maxThrust
      test_values GRAVITY_def)


section \<open>Air density\<close>

text \<open>
  Claim C2. For a finite altitude and a finite temperature other than absolute zero,
  \<open>calcAirDensity\<close> is the barometric pressure at the altitude clamped to [0, 11000],
  divided by \<open>287.058 \<times> (tempC + 273.15)\<close> with the temperature as supplied. For an
  altitude in [0, 11000] and a temperature in [-20, 50] the result is a finite number
  strictly between 0 and 1.5, and at altitude 0 and 15 degrees it is within 0.01 of 1.225.
\<close>

theorem calcAirDensity_range:
  "(t \<noteq> - 273.15 \<longrightarrow>
      calcAirDensity (Fin h) (Fin t) =
        Fin (barometric_pressure (max 0 (min h 11000)) / (287.058 * (t + 273.15))))
   \<and> (0 \<le> h \<and> h \<le> 11000 \<and> - 20 \<le> t \<and> t \<le> 50 \<longrightarrow>
      (\<exists>d. calcAirDensity (Fin h) (Fin t) = Fin d \<and> 0 < d \<and> d < 1.5
           \<and> d = barometric_pressure h / (287.058 * (t + 273.15))))
   \<and> (\<exists>d. calcAirDensity (Fin 0) (Fin 15) = Fin d \<and> \<bar>d - 1.225\<bar> \<le> 0.01)"
proof (intro conjI impI)
  assume "t \<noteq> - 273.15"
  then show "calcAirDensity (Fin h) (Fin t) =
        Fin (barometric_pressure (max 0 (min h 11000)) / (287.058 * (t + 273.15)))"
    by (rule calcAirDensity_Fin)
next
  assume r: "0 \<le> h \<and> h \<le> 11000 \<and> - 20 \<le> t \<and> t \<le> 50"
  then have eq: "calcAirDensity (Fin h) (Fin t) = Fin (barometric_pressure h / (287.058 * (t + 273.15)))"
    using calcAirDensity_Fin [of t h] by (simp add: max_def min_def)
  have p: "0 < barometric_pressure h" "barometric_pressure h \<le> 101325"
    using r barometric_pressure_range [of h] by simp_all
  have T: "0 < 287.058 * (t + 273.15)" using r by simp
  have pos: "0 < barometric_pressure h / (287.058 * (t + 273.15))"
    using p T by simp
  have "barometric_pressure h < 1.5 * (287.058 * (t + 273.15))"
    using p r by simp
  then have "barometric_pressure h / (287.058 * (t + 273.15)) < 1.5"
    using T by (simp add: pos_divide_less_eq)
  with eq pos show "\<exists>d. calcAirDensity (Fin h) (Fin t) = Fin d \<and> 0 < d \<and> d < 1.5
           \<and> d = barometric_pressure h / (287.058 * (t + 273.15))"
    by simp
next
  have "calcAirDensity (Fin 0) (Fin 15) = Fin (barometric_pressure 0 / (287.058 * (15 + 273.15)))"
    using calcAirDensity_Fin [of 15 0] by simp
  moreover have "barometric_pressure 0 = 101325" by (simp add: barometric_pressure_def)
  ultimately have "calcAirDensity (Fin 0) (Fin 15) = Fin (337750000 / 275719209)"
    by simp
  moreover have "\<bar>337750000 / 275719209 - 1.225\<bar> \<le> (0.01::real)"
    by simp
  ultimately show "\<exists>d. calcAirDensity (Fin 0) (Fin 15) = Fin d \<and> \<bar>d - 1.225\<bar> \<le> 0.01"
    by blast
qed

theorem calcAirDensity_range_witness:
  "((0::real) \<le> 0 \<and> (0::real) \<le> 11000 \<and> - 20 \<le> (15::real) \<and> (15::real) \<le> 50)
   \<and> (\<exists>d. calcAirDensity (Fin 0) (Fin 15) = Fin d \<and> 0 < d \<and> d < 1.5
          \<and> d = barometric_pressure 0 / (287.058 * (15 + 273.15)))"
proof -
  have h: "(0::real) \<le> 0 \<and> (0::real) \<le> 11000 \<and> - 20 \<le> (15::real) \<and> (15::real) \<le> 50"
    by simp
  with calcAirDensity_range [of 15 0] show ?thesis by blast
qed

section \<open>Battery voltage under load\<close>

lemma Math_max_lower: "Math_max a b \<noteq> NaN \<Longrightarrow> jle a (Math_max a b)"
  by (cases a; cases b) (simp_all add: Math_max_def)




section \<open>Hover throttle\<close>

text \<open>
  Claim C4. \<open>calcHoverThrottle\<close> returns 100 whenever the maximum thrust per motor is at
  most 0. Otherwise it returns
  \<open>100 \<times> \<surd>((totalWeightKg \<times> 9.80665 / (numMotors \<times> coaxialFactor)) / maxThrustPerMotorN)\<close>
  clamped to [0, 100], with the square root, the quotients and the clamp of JavaScript; on
  finite arguments with a positive maximum thrust, a nonzero motor divisor and a
  nonnegative thrust ratio this is the real number so written.
\<close>

theorem calcHoverThrottle_sentinel_and_formula:
  "(jle maxT (Fin 0) \<longrightarrow> calcHoverThrottle w n maxT cf = Fin 100)
   \<and> (\<not> jle maxT (Fin 0) \<longrightarrow>
        calcHoverThrottle w n maxT cf =
          Math_min (Fin 100) (Math_max (Fin 0)
            (jmul (Fin 100) (Math_sqrt (jdiv (jdiv (jmul w GRAVITY) (jmul n cf)) maxT)))))
   \<and> (0 < m \<and> n' * cf' \<noteq> 0 \<and> 0 \<le> (w' * 9.80665 / (n' * cf')) / m \<longrightarrow>
        calcHoverThrottle (Fin w') (Fin n') (Fin m) (Fin cf') =
          Fin (min 100 (max 0 (100 * sqrt ((w' * 9.80665 / (n' * cf')) / m)))))"
proof (intro conjI impI)
  assume "jle maxT (Fin 0)"
  then show "calcHoverThrottle w n maxT cf = Fin 100"
    by (simp add: calcHoverThrottle_def)
next
  assume "\<not> jle maxT (Fin 0)"
  then show "calcHoverThrottle w n maxT cf =
          Math_min (Fin 100) (Math_max (Fin 0)
            (jmul (Fin 100) (Math_sqrt (jdiv (jdiv (jmul w GRAVITY) (jmul n cf)) maxT))))"
    by (simp add: calcHoverThrottle_def Let_def jmul_commute [of "Fin 100"])
next
  assume h: "0 < m \<and> n' * cf' \<noteq> 0 \<and> 0 \<le> (w' * 9.80665 / (n' * cf')) / m"
  then have "\<not> (w' * 9.80665 / (n' * cf')) / m < 0" by simp
  then show "calcHoverThrottle (Fin w') (Fin n') (Fin m) (Fin cf') =
          Fin (min 100 (max 0 (100 * sqrt ((w' * 9.80665 / (n' * cf')) / m))))"
    using h by (simp add: calcHoverThrottle_def Let_def GRAVITY_def mult.commute del: divide_divide_eq_left)
qed

theorem calcHoverThrottle_witness:
  "jle (Fin 0) (Fin 0) \<and> calcHoverThrottle (Fin 1.5) (Fin 4) (Fin 0) (Fin 1) = Fin 100
   \<and> \<not> jle (Fin 10) (Fin 0) \<and> (0::real) < 10 \<and> (4::real) * 1 \<noteq> 0
   \<and> (0::real) \<le> (1.5 * 9.80665 / (4 * 1)) / 10
   \<and> calcHoverThrottle (Fin 1.5) (Fin 4) (Fin 10) (Fin 1) =
        Fin (min 100 (max 0 (100 * sqrt ((1.5 * 9.80665 / (4 * 1)) / 10))))"
  using calcHoverThrottle_sentinel_and_formula [of "Fin 0" "Fin 1.5" "Fin 4" "Fin 1" 10 4 1 "1.5"]
    calcHoverThrottle_sentinel_and_formula [of "Fin 10" "Fin 1.5" "Fin 4" "Fin 1" 10 4 1 "1.5"]
  by simp

section \<open>Propeller coefficients by blade count\<close>

lemma estimate_ct_Fin:
  assumes "d \<noteq> 0"
  shows "prop_coefficients.ct (estimatePropCoefficients (Fin d) (Fin p) (Fin 2)) =
           Fin (max 0.04 (min 0.22 (0.075 + 0.045 * (p / d))))"
    and "prop_coefficients.ct (estimatePropCoefficients (Fin d) (Fin p) (Fin 3)) =
           Fin (max 0.04 (min 0.22 ((0.075 + 0.045 * (p / d)) * 1.15)))"
  using assms by (simp_all add: estimatePropCoefficients_def Let_def)

lemma estimate_cp_Fin:
  assumes "d \<noteq> 0"
  shows "prop_coefficients.cp (estimatePropCoefficients (Fin d) (Fin p) (Fin 2)) =
           Fin (max 0.015 (min 0.12 (0.025 + 0.035 * (p / d))))"
    and "prop_coefficients.cp (estimatePropCoefficients (Fin d) (Fin p) (Fin 3)) =
           Fin (max 0.015 (min 0.12 ((0.025 + 0.035 * (p / d)) * 1.25)))"
  using assms by (simp_all add: estimatePropCoefficients_def Let_def)

lemma ct_strict:
  fixes x :: real
  assumes "0 \<le> x" "x \<le> 5 / 2"
  shows "max 0.04 (min 0.22 (0.075 + 0.045 * x)) < max 0.04 (min 0.22 ((0.075 + 0.045 * x) * 1.15))"
  using assms by (auto simp: max_def min_def)

lemma cp_strict:
  fixes x :: real
  assumes "0 \<le> x" "x \<le> 5 / 2"
  shows "max 0.015 (min 0.12 (0.025 + 0.035 * x)) < max 0.015 (min 0.12 ((0.025 + 0.035 * x) * 1.25))"
  using assms by (auto simp: max_def min_def)

lemma ct_mono:
  fixes x :: real
  shows "max 0.04 (min 0.22 (0.075 + 0.045 * x)) \<le> max 0.04 (min 0.22 ((0.075 + 0.045 * x) * 1.15))"
  by (auto simp: max_def min_def)

lemma cp_mono:
  fixes x :: real
  shows "max 0.015 (min 0.12 (0.025 + 0.035 * x)) \<le> max 0.015 (min 0.12 ((0.025 + 0.035 * x) * 1.25))"
  by (auto simp: max_def min_def)

text \<open>
  Claim C5 says that for every positive diameter and every pitch both coefficients of a
  three-blade propeller are strictly greater than those of a two-blade propeller. At
  diameter 1 and pitch 10 the thrust coefficient is clamped to 0.22 for both blade counts,
  so it is not strictly greater.
\<close>

theorem three_blade_not_always_greater:
  "\<not> jlt (prop_coefficients.ct (estimatePropCoefficients (Fin 1) (Fin 10) (Fin 2)))
         (prop_coefficients.ct (estimatePropCoefficients (Fin 1) (Fin 10) (Fin 3)))"
  by (simp add: estimatePropCoefficients_def Let_def)

text \<open>
  Claim C5, amended. For every nonzero finite diameter and finite pitch, each three-blade
  coefficient is at least the two-blade one; and both are strictly greater when the
  pitch ratio \<open>pitchIn / diameterIn\<close> lies between 0 and 2.5, a range in which the
  three-blade values stay clear of the common upper bounds (\<open>ct\<close> is at most 0.2157
  against 0.22, and the two-blade \<open>cp\<close> is at most 0.1125 against 0.12).
\<close>

theorem three_blade_greater_in_range:
  "(d \<noteq> 0 \<longrightarrow>
      jle (prop_coefficients.ct (estimatePropCoefficients (Fin d) (Fin p) (Fin 2)))
          (prop_coefficients.ct (estimatePropCoefficients (Fin d) (Fin p) (Fin 3)))
      \<and> jle (prop_coefficients.cp (estimatePropCoefficients (Fin d) (Fin p) (Fin 2)))
            (prop_coefficients.cp (estimatePropCoefficients (Fin d) (Fin p) (Fin 3))))
   \<and> (d \<noteq> 0 \<and> 0 \<le> p / d \<and> p / d \<le> 5 / 2 \<longrightarrow>
      jlt (prop_coefficients.ct (estimatePropCoefficients (Fin d) (Fin p) (Fin 2)))
          (prop_coefficients.ct (estimatePropCoefficients (Fin d) (Fin p) (Fin 3)))
      \<and> jlt (prop_coefficients.cp (estimatePropCoefficients (Fin d) (Fin p) (Fin 2)))
            (prop_coefficients.cp (estimatePropCoefficients (Fin d) (Fin p) (Fin 3))))"
proof (intro conjI impI)
  assume d: "d \<noteq> 0"
  show "jle (prop_coefficients.ct (estimatePropCoefficients (Fin d) (Fin p) (Fin 2)))
          (prop_coefficients.ct (estimatePropCoefficients (Fin d) (Fin p) (Fin 3)))"
    unfolding estimate_ct_Fin [OF d] jle.simps by (rule ct_mono)
  show "jle (prop_coefficients.cp (estimatePropCoefficients (Fin d) (Fin p) (Fin 2)))
          (prop_coefficients.cp (estimatePropCoefficients (Fin d) (Fin p) (Fin 3)))"
    unfolding estimate_cp_Fin [OF d] jle.simps by (rule cp_mono)
next
  assume h: "d \<noteq> 0 \<and> 0 \<le> p / d \<and> p / d \<le> 5 / 2"
  then have d: "d \<noteq> 0" and r: "0 \<le> p / d" "p / d \<le> 5 / 2" by simp_all
  show "jlt (prop_coefficients.ct (estimatePropCoefficients (Fin d) (Fin p) (Fin 2)))
          (prop_coefficients.ct (estimatePropCoefficients (Fin d) (Fin p) (Fin 3)))"
    unfolding estimate_ct_Fin [OF d] jlt.simps by (rule ct_strict [OF r])
  show "jlt (prop_coefficients.cp (estimatePropCoefficients (Fin d) (Fin p) (Fin 2)))
          (prop_coefficients.cp (estimatePropCoefficients (Fin d) (Fin p) (Fin 3)))"
    unfolding estimate_cp_Fin [OF d] jlt.simps by (rule cp_strict [OF r])
qed

theorem three_blade_greater_witness:
  "((5::real) \<noteq> 0 \<and> 0 \<le> (4::real) / 5 \<and> (4::real) / 5 \<le> 5 / 2)
   \<and> jlt (prop_coefficients.ct (estimatePropCoefficients (Fin 5) (Fin 4) (Fin 2)))
          (prop_coefficients.ct (estimatePropCoefficients (Fin 5) (Fin 4) (Fin 3)))
   \<and> jlt (prop_coefficients.cp (estimatePropCoefficients (Fin 5) (Fin 4) (Fin 2)))
          (prop_coefficients.cp (estimatePropCoefficients (Fin 5) (Fin 4) (Fin 3)))
   \<and> jle (prop_coefficients.ct (estimatePropCoefficients (Fin 5) (Fin 4) (Fin 2)))
          (prop_coefficients.ct (estimatePropCoefficients (Fin 5) (Fin 4) (Fin 3)))"
proof -
  have h: "(5::real) \<noteq> 0 \<and> 0 \<le> (4::real) / 5 \<and> (4::real) / 5 \<le> 5 / 2" by simp
  with three_blade_greater_in_range [of 5 4] show ?thesis by blast
qed

section \<open>Flight time\<close>

text \<open>
  Claim C6. \<open>calcFlightTime\<close> returns Infinity for every total current that is at most
  zero (negative infinity included). For every total current above zero it returns
  \<open>(capacityMah \<times> dischargePercent) / (totalCurrentA \<times> 1000) \<times> 60\<close>, which on finite
  arguments is that real number; and \<open>calcFlightTime 5000 0.8 20\<close> is 12, within one
  minute of 12.
\<close>

theorem calcFlightTime_sentinel_and_formula:
  "(jle cur (Fin 0) \<longrightarrow>
      calcFlightTime cap dod cur = PInf)
   \<and> (jgt cur (Fin 0) \<longrightarrow>
      calcFlightTime cap dod cur =
        jmul (jdiv (jmul cap dod) (jmul cur (Fin 1000))) (Fin 60))
   \<and> (0 < i \<longrightarrow>
      calcFlightTime (Fin c) (Fin d) (Fin i) = Fin ((c * d) / (i * 1000) * 60))
   \<and> (\<exists>t. calcFlightTime (Fin 5000) (Fin 0.8) (Fin 20) = Fin t \<and> \<bar>t - 12\<bar> \<le> 1)"
proof (intro conjI impI)
  assume "jle cur (Fin 0)"
  then show "calcFlightTime cap dod cur = PInf"
    by (simp add: calcFlightTime_def)
next
  assume "jgt cur (Fin 0)"
  then have "\<not> jle cur (Fin 0)"
    by (cases cur) (simp_all add: jgt_def)
  then show "calcFlightTime cap dod cur =
      jmul (jdiv (jmul cap dod) (jmul cur (Fin 1000))) (Fin 60)"
    by (simp add: calcFlightTime_def)
next
  assume "0 < i"
  then show "calcFlightTime (Fin c) (Fin d) (Fin i) = Fin ((c * d) / (i * 1000) * 60)"
    by (simp add: calcFlightTime_def)
next
  have "calcFlightTime (Fin 5000) (Fin 0.8) (Fin 20) = Fin 12"
    by (simp add: calcFlightTime_def)
  then show "\<exists>t. calcFlightTime (Fin 5000) (Fin 0.8) (Fin 20) = Fin t \<and> \<bar>t - 12\<bar> \<le> 1"
    by simp
qed

theorem calcFlightTime_witness:
  "jle (Fin 0) (Fin 0) \<and> calcFlightTime (Fin 5000) (Fin 0.8) (Fin 0) = PInf
   \<and> jgt (Fin 20) (Fin 0) \<and> (0::real) < 20
   \<and> calcFlightTime (Fin 5000) (Fin 0.8) (Fin 20) = Fin ((5000 * 0.8) / (20 * 1000) * 60)"
  using calcFlightTime_sentinel_and_formula [of "Fin 0" "Fin 5000" "Fin 0.8" 20 5000 "0.8"]
    calcFlightTime_sentinel_and_formula [of "Fin 20" "Fin 5000" "Fin 0.8" 20 5000 "0.8"]
  by (simp add: jgt_def)

section \<open>Totality and the guards against division by zero\<close>

lemma absolute_zero_values:
  "numMotors absolute_zero_config = Fin 4"
  "coaxFactor absolute_zero_config = Fin 1"
  "totalWeightKg absolute_zero_config = Fin (17 / 50)"
  "ct absolute_zero_config = Fin (381 / 4000)"
  "maxRPS absolute_zero_config = Fin (1541 / 6)"
  "propDiameterM absolute_zero_config = Fin (254 / 1000)"
  "tempC absolute_zero_config = Fin (- 273.15)"
  "altitude absolute_zero_config = Fin 0"
  by (simp_all add: totalWeightKg_def maxRPS_def maxRPM_def calcMotorRPM_def
      input_defs section_defs js_defs absolute_zero_config_def empty_config_def
      estimatePropCoefficients_def Let_def)

lemma absolute_zero_rho: "rho absolute_zero_config = PInf"
  by (simp add: rho_def absolute_zero_values calcAirDensity_def Let_def const_defs
      finite_pow_def signed_inf_def)

lemma absolute_zero_throttle: "hoverThrottle absolute_zero_config = Fin 0"
  by (simp add: hoverThrottle_def maxThrustPerMotor_def calcThrust_def calcHoverThrottle_def
      Let_def absolute_zero_values absolute_zero_rho finite_pow_def signed_inf_def GRAVITY_def)


lemma cells_nonzero: "cells c \<noteq> Fin 0"
proof -
  have "truthy (cells c)" unfolding cells_def by (rule truthy_or_default) simp
  then show ?thesis by auto
qed

lemma propDiameterIn_nonzero: "propDiameterIn c \<noteq> Fin 0"
proof -
  have "truthy (propDiameterIn c)" unfolding propDiameterIn_def by (rule truthy_or_default) simp
  then show ?thesis by auto
qed



section \<open>Defaulting of configuration fields\<close>

lemma temperature_zero_respected:
  "tempC (with_environment (\<lambda>s. s\<lparr>environment.temperature := Some (Fin 0)\<rparr>) c) = Fin 0"
  "tempC (with_environment (\<lambda>s. s\<lparr>environment.temperature := None\<rparr>) c) = Fin 25"
  "altitude (with_environment (\<lambda>s. s\<lparr>environment.temperature := v\<rparr>) c) = altitude c"
  by (simp_all add: tempC_def altitude_def nullish_def)

lemma density_differs:
  "calcAirDensity (altitude c) (Fin 0) \<noteq> calcAirDensity (altitude c) (Fin 25)"
proof -
  obtain a where a: "0 \<le> a" "a \<le> 11000"
    "Math_max (Fin 0) (Math_min (altitude c) (Fin 11000)) = Fin a"
    using altitude_clamp [OF altitude_not_NaN] by blast
  have p: "0 < barometric_pressure a" using a by (intro barometric_pressure_range)
  have "calcAirDensity (altitude c) (Fin 0) = Fin (barometric_pressure a / (287.058 * (0 + 273.15)))"
    by (rule calcAirDensity_clamped [OF a(3) a(1) a(2)]) simp
  moreover have "calcAirDensity (altitude c) (Fin 25) = Fin (barometric_pressure a / (287.058 * (25 + 273.15)))"
    by (rule calcAirDensity_clamped [OF a(3) a(1) a(2)]) simp
  ultimately show ?thesis using p by simp
qed


section \<open>The hover operating point\<close>

subsection \<open>Composition of relative errors\<close>

lemma near_refl: "a \<noteq> 0 \<Longrightarrow> near u 0 a a"
  by (auto simp: near_def zero_less_mult_iff)

lemma near_sym: "near u k a b \<Longrightarrow> near u k b a"
  by (simp add: near_def mult.commute)

lemma near_trans:
  assumes "near u j a b" "near u k b c" "u \<le> 1"
  shows "near u (j + k) a c"
proof -
  let ?e = "1 - u"
  have e: "0 \<le> ?e ^ k" "0 \<le> ?e ^ j" using assms(3) by simp_all
  have s: "0 < a * c" using assms(1,2) by (auto simp: near_def zero_less_mult_iff)
  have "\<bar>a\<bar> * ?e ^ (j + k) = (\<bar>a\<bar> * ?e ^ j) * ?e ^ k" by (simp add: power_add)
  also have "\<dots> \<le> \<bar>b\<bar> * ?e ^ k" using assms(1) e by (intro mult_right_mono) (simp_all add: near_def)
  also have "\<dots> \<le> \<bar>c\<bar>" using assms(2) by (simp add: near_def)
  finally have 1: "\<bar>a\<bar> * ?e ^ (j + k) \<le> \<bar>c\<bar>" .
  have "\<bar>c\<bar> * ?e ^ (j + k) = (\<bar>c\<bar> * ?e ^ k) * ?e ^ j" by (simp add: power_add)
  also have "\<dots> \<le> \<bar>b\<bar> * ?e ^ j" using assms(2) e by (intro mult_right_mono) (simp_all add: near_def)
  also have "\<dots> \<le> \<bar>a\<bar>" using assms(1) by (simp add: near_def)
  finally have 2: "\<bar>c\<bar> * ?e ^ (j + k) \<le> \<bar>a\<bar>" .
  from s 1 2 show ?thesis by (simp add: near_def)
qed

lemma near_mult_aux:
  fixes a b c d e :: real
  assumes "\<bar>a\<bar> * e ^ j \<le> \<bar>b\<bar>" "\<bar>c\<bar> * e ^ k \<le> \<bar>d\<bar>" "0 \<le> e"
  shows "\<bar>a * c\<bar> * e ^ (j + k) \<le> \<bar>b * d\<bar>"
proof -
  have "\<bar>a * c\<bar> * e ^ (j + k) = (\<bar>a\<bar> * e ^ j) * (\<bar>c\<bar> * e ^ k)"
    by (simp add: power_add abs_mult)
  also have "\<dots> \<le> \<bar>b\<bar> * \<bar>d\<bar>" using assms by (intro mult_mono) simp_all
  finally show ?thesis by (simp add: abs_mult)
qed

lemma near_mult:
  assumes "near u j a b" "near u k c d" "u \<le> 1"
  shows "near u (j + k) (a * c) (b * d)"
proof -
  have e: "0 \<le> 1 - u" using assms(3) by simp
  have "0 < (a * b) * (c * d)" using assms(1,2) by (simp add: near_def)
  then have s: "0 < (a * c) * (b * d)" by (simp add: mult_ac)
  from assms(1,2) have 1: "\<bar>a * c\<bar> * (1 - u) ^ (j + k) \<le> \<bar>b * d\<bar>"
    unfolding near_def using e by (intro near_mult_aux) simp_all
  from assms(1,2) have 2: "\<bar>b * d\<bar> * (1 - u) ^ (j + k) \<le> \<bar>a * c\<bar>"
    unfolding near_def using e by (intro near_mult_aux) simp_all
  from s 1 2 show ?thesis by (simp add: near_def)
qed

lemma near_inverse:
  assumes "near u k a b"
  shows "near u k (inverse a) (inverse b)"
proof -
  from assms have ab: "0 < a * b" and 1: "\<bar>a\<bar> * (1 - u) ^ k \<le> \<bar>b\<bar>" and 2: "\<bar>b\<bar> * (1 - u) ^ k \<le> \<bar>a\<bar>"
    by (simp_all add: near_def)
  from ab have nz: "a \<noteq> 0" "b \<noteq> 0" by auto
  then have pa: "0 < \<bar>a\<bar>" and pb: "0 < \<bar>b\<bar>" by simp_all
  have s: "0 < inverse a * inverse b" using ab by (simp add: zero_less_mult_iff)
  have 3: "\<bar>inverse a\<bar> * (1 - u) ^ k \<le> \<bar>inverse b\<bar>"
    using 2 pa pb by (simp add: abs_inverse field_simps)
  have 4: "\<bar>inverse b\<bar> * (1 - u) ^ k \<le> \<bar>inverse a\<bar>"
    using 1 pa pb by (simp add: abs_inverse field_simps)
  from s 3 4 show ?thesis by (simp add: near_def)
qed

lemma near_divide:
  assumes "near u j a b" "near u k c d" "u \<le> 1"
  shows "near u (j + k) (a / c) (b / d)"
  using near_mult [OF assms(1) near_inverse [OF assms(2)] assms(3)]
  by (simp add: divide_inverse)

lemma near_mono:
  assumes "near u j a b" "j \<le> k" "0 \<le> u" "u \<le> 1"
  shows "near u k a b"
proof -
  have "(1 - u) ^ k \<le> (1 - u) ^ j" using assms(2,3,4) by (intro power_decreasing) simp_all
  then have "\<bar>a\<bar> * (1 - u) ^ k \<le> \<bar>a\<bar> * (1 - u) ^ j" "\<bar>b\<bar> * (1 - u) ^ k \<le> \<bar>b\<bar> * (1 - u) ^ j"
    by (simp_all add: mult_left_mono)
  with assms(1) show ?thesis by (auto simp: near_def)
qed

lemma near_round:
  assumes "\<bar>y - x\<bar> \<le> u * \<bar>x\<bar>" "x \<noteq> 0" "0 \<le> u" "u < 1"
  shows "near u 1 y x"
proof (cases "0 < x")
  case True
  with assms(1) have 1: "x * (1 - u) \<le> y" "y \<le> x * (1 + u)" by (simp_all add: abs_le_iff algebra_simps)
  have "0 < x * (1 - u)" using True assms(4) by simp
  with 1 have y: "0 < y" by linarith
  have "y * (1 - u) \<le> x * (1 + u) * (1 - u)" using 1(2) assms(4) by (intro mult_right_mono) simp_all
  also have "\<dots> = x * (1 - u * u)" by (simp add: algebra_simps)
  also have "\<dots> \<le> x * 1" using True by (intro mult_left_mono) simp_all
  finally have "y * (1 - u) \<le> x" by simp
  with y True 1 show ?thesis by (simp add: near_def)
next
  case False
  with assms(2) have x: "x < 0" by simp
  with assms(1) have 1: "y \<le> x * (1 - u)" "x * (1 + u) \<le> y" by (simp_all add: abs_le_iff algebra_simps)
  have "x * (1 - u) < 0" using x assms(4) by (simp add: mult_neg_pos)
  with 1 have y: "y < 0" by linarith
  have "(- y) * (1 - u) \<le> (- x) * (1 + u) * (1 - u)" using 1(2) assms(4) by (intro mult_right_mono) simp_all
  also have "\<dots> = (- x) * (1 - u * u)" by (simp add: algebra_simps)
  also have "\<dots> \<le> (- x) * 1" using x by (intro mult_left_mono) simp_all
  finally have "(- y) * (1 - u) \<le> - x" by simp
  with y x 1 show ?thesis by (simp add: near_def mult_neg_neg algebra_simps)
qed

lemma near_bound:
  assumes "near u k a b" "k \<le> 19" "0 \<le> u" "u \<le> 1 / 64"
  shows "\<bar>a - b\<bar> \<le> 32 * u * \<bar>b\<bar>"
proof -
  have n: "near u 19 a b" using assms by (intro near_mono [OF assms(1)]) simp_all
  let ?e = "(1 - u) ^ 19"
  have B: "1 - 19 * u \<le> ?e" using Bernoulli_inequality [of "- u" 19] assms(4) by simp
  have f: "0 < 1 - 19 * u" using assms(4) by simp
  from n have s: "0 < a * b" and 1: "\<bar>a\<bar> * ?e \<le> \<bar>b\<bar>" and 2: "\<bar>b\<bar> * ?e \<le> \<bar>a\<bar>"
    by (simp_all add: near_def)
  have "\<bar>a\<bar> * (1 - 19 * u) \<le> \<bar>a\<bar> * ?e" using B by (intro mult_left_mono) simp_all
  with 1 have 3: "\<bar>a\<bar> * (1 - 19 * u) \<le> \<bar>b\<bar>" by simp
  have "\<bar>b\<bar> * (1 - 19 * u) \<le> \<bar>b\<bar> * ?e" using B by (intro mult_left_mono) simp_all
  with 2 have 4: "\<bar>b\<bar> * (1 - 19 * u) \<le> \<bar>a\<bar>" by simp
  have 5: "\<bar>b\<bar> - \<bar>a\<bar> \<le> 32 * u * \<bar>b\<bar>"
  proof -
    have "\<bar>b\<bar> - \<bar>a\<bar> \<le> 19 * u * \<bar>b\<bar>" using 4 by (simp add: algebra_simps)
    also have "\<dots> \<le> 32 * u * \<bar>b\<bar>" using assms(3) by (intro mult_right_mono) simp_all
    finally show ?thesis .
  qed
  have 6: "\<bar>a\<bar> - \<bar>b\<bar> \<le> 32 * u * \<bar>b\<bar>"
  proof -
    have "(1 + 32 * u) * (1 - 19 * u) = 1 + u * (13 - 608 * u)" by (simp add: algebra_simps)
    moreover have "0 \<le> u * (13 - 608 * u)" using assms(3,4) by (intro mult_nonneg_nonneg) simp_all
    ultimately have "1 \<le> (1 + 32 * u) * (1 - 19 * u)" by simp
    then have "\<bar>a\<bar> * 1 \<le> \<bar>a\<bar> * ((1 + 32 * u) * (1 - 19 * u))" by (intro mult_left_mono) simp_all
    also have "\<dots> = (\<bar>a\<bar> * (1 - 19 * u)) * (1 + 32 * u)" by (simp add: algebra_simps)
    also have "\<dots> \<le> \<bar>b\<bar> * (1 + 32 * u)" using 3 assms(3) by (intro mult_right_mono) simp_all
    finally show ?thesis by (simp add: algebra_simps)
  qed
  have "\<bar>a - b\<bar> = \<bar>\<bar>a\<bar> - \<bar>b\<bar>\<bar>" using s by (auto simp: zero_less_mult_iff abs_if)
  with 5 6 show ?thesis by (simp add: abs_le_iff)
qed

lemma near_trans':
  "near u j a b \<Longrightarrow> near u k b c \<Longrightarrow> u \<le> 1 \<Longrightarrow> j + k = l \<Longrightarrow> near u l a c"
  using near_trans by blast

lemma near_mult':
  "near u j a b \<Longrightarrow> near u k c d \<Longrightarrow> u \<le> 1 \<Longrightarrow> j + k = l \<Longrightarrow> near u l (a * c) (b * d)"
  using near_mult by blast

lemma near_divide':
  "near u j a b \<Longrightarrow> near u k c d \<Longrightarrow> u \<le> 1 \<Longrightarrow> j + k = l \<Longrightarrow> near u l (a / c) (b / d)"
  using near_divide by blast

lemma near_nonzero: "near u k a b \<Longrightarrow> a \<noteq> 0 \<and> b \<noteq> 0"
  by (auto simp: near_def)

lemma near_pos: "near u k a b \<Longrightarrow> 0 < b \<Longrightarrow> 0 < a"
  by (auto simp: near_def zero_less_mult_iff)

lemma round_zero:
  assumes "\<And>x. \<bar>rnd x - x\<bar> \<le> u * \<bar>x\<bar>"
  shows "rnd 0 = (0::real)"
  using assms [of 0] by simp

lemma thrust_near:
  fixes rnd :: "real \<Rightarrow> real"
  assumes acc: "\<And>x. \<bar>rnd x - x\<bar> \<le> u * \<bar>x\<bar>" and u: "0 \<le> u" "u < 1"
    and nz: "c \<noteq> 0" "r \<noteq> 0" "p \<noteq> 0"
  shows "near u 3 (rnd (rnd (rnd (c * r) * r) * p)) (c * r * r * p)"
proof -
  have rn: "near u 1 (rnd x) x" if "x \<noteq> 0" for x
    using acc that u by (intro near_round)
  have u1: "u \<le> 1" using u by simp
  note nzD = near_nonzero [THEN conjunct1]
  have 1: "near u 1 (rnd (c * r)) (c * r)" using nz by (intro rn) simp
  have 2: "near u 1 (rnd (c * r) * r) (c * r * r)"
    by (rule near_mult' [OF 1 near_refl [OF nz(2)] u1]) simp
  have 4: "near u 2 (rnd (rnd (c * r) * r)) (c * r * r)"
    by (rule near_trans' [OF rn [OF nzD [OF 2]] 2 u1]) simp
  have 5: "near u 2 (rnd (rnd (c * r) * r) * p) (c * r * r * p)"
    by (rule near_mult' [OF 4 near_refl [OF nz(3)] u1]) simp
  show ?thesis
    by (rule near_trans' [OF rn [OF nzD [OF 5]] 5 u1]) simp
qed

lemma hover_chain:
  fixes rnd sq :: "real \<Rightarrow> real"
  assumes acc: "\<And>x. \<bar>rnd x - x\<bar> \<le> u * \<bar>x\<bar>"
    and sqa: "\<And>x. 0 \<le> x \<Longrightarrow> \<bar>sq x - sqrt x\<bar> \<le> u * sqrt x"
    and u: "0 \<le> u" "u < 1"
    and nz: "g \<noteq> 0" "w \<noteq> 0" "n * cf \<noteq> 0" "c \<noteq> 0" "r \<noteq> 0" "p \<noteq> 0"
    and m: "m = rnd (rnd (rnd (c * r) * r) * p)"
    and t: "t = rnd (rnd (w * rnd g) / rnd (n * cf))"
    and q: "q = rnd (t / m)" "0 \<le> q"
    and x: "x = rnd (sq q * 100)"
    and r': "r' = rnd (r * rnd (x / 100))"
    and T: "T = rnd (rnd (rnd (c * r') * r') * p)"
  shows "near u 19 (T * n * cf) (w * g)
    \<and> near u 19 (rnd (rnd (T * n) * cf)) (rnd (w * rnd g)) \<and> 0 < x"
proof -
  have rn: "near u 1 (rnd y) y" if "y \<noteq> 0" for y
    using acc that u by (intro near_round)
  have u1: "u \<le> 1" using u by simp
  note nzD = near_nonzero [THEN conjunct1]
  have M: "near u 3 m (c * r * r * p)" unfolding m using acc u nz(4,5,6) by (rule thrust_near)
  have g': "near u 1 (rnd g) g" using nz(1) by (rule rn)
  have wg: "near u 1 (w * rnd g) (w * g)"
    by (rule near_mult' [OF near_refl [OF nz(2)] g' u1]) simp
  have req: "near u 2 (rnd (w * rnd g)) (w * g)"
    by (rule near_trans' [OF rn [OF nzD [OF wg]] wg u1]) simp
  have eff: "near u 1 (rnd (n * cf)) (n * cf)" using nz(3) by (rule rn)
  have "rnd (w * rnd g) / rnd (n * cf) \<noteq> 0"
    using nzD [OF req] nzD [OF eff] by simp
  then have t1: "near u 1 t (rnd (w * rnd g) / rnd (n * cf))"
    unfolding t by (rule rn)
  have tm: "t / m \<noteq> 0" using nzD [OF t1] nzD [OF M] by simp
  have q1: "near u 1 q (t / m)" unfolding q using tm by (rule rn)
  have qpos: "0 < q" using nzD [OF q1] q(2) by simp
  then have sq0: "sqrt q \<noteq> 0" by simp
  have s1: "near u 1 (sq q) (sqrt q)"
    using sqa [of q] qpos sq0 u by (intro near_round) simp_all
  have spos: "0 < sq q" using near_pos [OF s1] qpos by simp
  have "near u 2 (sq q * sq q) (sqrt q * sqrt q)"
    by (rule near_mult' [OF s1 s1 u1]) simp
  then have s2: "near u 2 (sq q * sq q) q" using qpos by simp
  have s3: "near u 3 (sq q * sq q) (t / m)"
    by (rule near_trans' [OF s2 q1 u1]) simp
  have x1: "near u 1 x (sq q * 100)" unfolding x using spos by (intro rn) simp
  have xpos: "0 < x" using near_pos [OF x1] spos by simp
  have "near u 1 (x / 100) (sq q * 100 / 100)"
    by (rule near_divide' [OF x1 near_refl [of 100] u1]) simp_all
  then have x2: "near u 1 (x / 100) (sq q)" by simp
  have k2: "near u 2 (rnd (x / 100)) (sq q)"
    by (rule near_trans' [OF rn [OF nzD [OF x2]] x2 u1]) simp
  have rk: "near u 2 (r * rnd (x / 100)) (r * sq q)"
    by (rule near_mult' [OF near_refl [OF nz(5)] k2 u1]) simp
  have r3: "near u 3 r' (r * sq q)"
    unfolding r' by (rule near_trans' [OF rn [OF nzD [OF rk]] rk u1]) simp
  have r'nz: "r' \<noteq> 0" using nzD [OF r3] .
  have T3: "near u 3 T (c * r' * r' * p)" unfolding T using acc u nz(4) r'nz nz(6) by (rule thrust_near)
  have a1: "near u 3 (c * r') (c * (r * sq q))"
    by (rule near_mult' [OF near_refl [OF nz(4)] r3 u1]) simp
  have a2: "near u 6 (c * r' * r') (c * (r * sq q) * (r * sq q))"
    by (rule near_mult' [OF a1 r3 u1]) simp
  have a3: "near u 6 (c * r' * r' * p) (c * (r * sq q) * (r * sq q) * p)"
    by (rule near_mult' [OF a2 near_refl [OF nz(6)] u1]) simp
  have T9: "near u 9 T (c * (r * sq q) * (r * sq q) * p)"
    by (rule near_trans' [OF T3 a3 u1]) simp
  have b1: "near u 6 ((c * r * r * p) * (sq q * sq q)) (m * (t / m))"
    by (rule near_mult' [OF near_sym [OF M] s3 u1]) simp
  have b2: "m * (t / m) = t" using nzD [OF M] by simp
  have b3: "(c * r * r * p) * (sq q * sq q) = c * (r * sq q) * (r * sq q) * p" by simp
  have b4: "near u 6 (c * (r * sq q) * (r * sq q) * p) t" using b1 unfolding b2 b3 .
  have T15: "near u 15 T t" by (rule near_trans' [OF T9 b4 u1]) simp
  have c1: "near u 16 (T * (n * cf)) (t * rnd (n * cf))"
    by (rule near_mult' [OF T15 near_sym [OF eff] u1]) simp
  have c2: "near u 1 (t * rnd (n * cf)) (rnd (w * rnd g) / rnd (n * cf) * rnd (n * cf))"
    by (rule near_mult' [OF t1 near_refl [OF nzD [OF eff]] u1]) simp
  have c3: "rnd (w * rnd g) / rnd (n * cf) * rnd (n * cf) = rnd (w * rnd g)"
    using nzD [OF eff] by simp
  have c4: "near u 1 (t * rnd (n * cf)) (rnd (w * rnd g))" using c2 unfolding c3 .
  have c5: "near u 17 (T * (n * cf)) (rnd (w * rnd g))"
    by (rule near_trans' [OF c1 c4 u1]) simp
  have c6: "near u 19 (T * (n * cf)) (w * g)" by (rule near_trans' [OF c5 req u1]) simp
  have ncf: "n \<noteq> 0" "cf \<noteq> 0" using nz(3) by simp_all
  have "T * n \<noteq> 0" using nzD [OF T15] ncf by simp
  then have d1: "near u 1 (rnd (T * n)) (T * n)" by (rule rn)
  have d2: "near u 1 (rnd (T * n) * cf) (T * n * cf)"
    by (rule near_mult' [OF d1 near_refl [OF ncf(2)] u1]) simp
  have d3: "near u 2 (rnd (rnd (T * n) * cf)) (T * n * cf)"
    by (rule near_trans' [OF rn [OF nzD [OF d2]] d2 u1]) simp
  have c5': "near u 17 (T * n * cf) (rnd (w * rnd g))" using c5 by (simp add: mult.assoc)
  have d4: "near u 19 (rnd (rnd (T * n) * cf)) (rnd (w * rnd g))"
    by (rule near_trans' [OF d3 c5' u1]) simp
  from c6 d4 xpos show ?thesis by (simp add: mult.assoc)
qed

subsection \<open>The balance in rounded arithmetic\<close>

lemma rounded_simps [simp]:
  "rounded A (Fin r) = Fin (fl_round A r)"
  "rounded A PInf = PInf" "rounded A NInf = NInf" "rounded A NaN = NaN"
  by (simp_all add: rounded_def round_with_def)

lemma mul_fl_Fin: "mul_fl A (Fin x) (Fin y) = Fin (fl_round A (x * y))"
  by (simp add: mul_fl_def)

lemma div_fl_Fin: "y \<noteq> 0 \<Longrightarrow> div_fl A (Fin x) (Fin y) = Fin (fl_round A (x / y))"
  by (simp add: div_fl_def)

lemma rounded_eq_FinD:
  assumes "rounded A z = Fin v"
  obtains r where "z = Fin r" "v = fl_round A r"
  using assms by (cases z) simp_all

lemma mul_fl_eq_FinD:
  assumes "mul_fl A x y = Fin z"
  obtains a b where "x = Fin a" "y = Fin b" "z = fl_round A (a * b)"
proof -
  from assms obtain r where r: "jmul x y = Fin r" "z = fl_round A r"
    unfolding mul_fl_def by (rule rounded_eq_FinD)
  from r(1) obtain a b where "x = Fin a" "y = Fin b" "r = a * b" by (rule jmul_eq_FinD)
  with r(2) that show ?thesis by simp
qed

lemma calcThrust_fl_eq_FinD:
  assumes "calcThrust_fl A ct' rho' rps D = Fin m"
  obtains a b r p where "ct' = Fin a" "rho' = Fin b" "rps = Fin r" "fl_pow A D (Fin 4) = Fin p"
    "m = fl_round A (fl_round A (fl_round A (fl_round A (a * b) * r) * r) * p)"
proof -
  from assms obtain x3 p where 1: "mul_fl A (mul_fl A (mul_fl A ct' rho') rps) rps = Fin x3"
    "fl_pow A D (Fin 4) = Fin p" "m = fl_round A (x3 * p)"
    unfolding calcThrust_fl_def by (rule mul_fl_eq_FinD)
  from 1(1) obtain x2 r where 2: "mul_fl A (mul_fl A ct' rho') rps = Fin x2" "rps = Fin r"
    "x3 = fl_round A (x2 * r)" by (rule mul_fl_eq_FinD)
  from 2(1) obtain x1 r0 where 3: "mul_fl A ct' rho' = Fin x1" "rps = Fin r0"
    "x2 = fl_round A (x1 * r0)" by (rule mul_fl_eq_FinD)
  from 3(1) obtain a b where 4: "ct' = Fin a" "rho' = Fin b" "x1 = fl_round A (a * b)"
    by (rule mul_fl_eq_FinD)
  have "r0 = r" using 2(2) 3(2) by simp
  with 1 2 3 4 that show ?thesis by simp
qed

lemma calcThrust_fl_Fin:
  "fl_pow A D (Fin 4) = Fin p \<Longrightarrow> calcThrust_fl A (Fin a) (Fin b) (Fin r) D =
     Fin (fl_round A (fl_round A (fl_round A (fl_round A (a * b) * r) * r) * p))"
  by (simp add: calcThrust_fl_def mul_fl_def)

lemma hover_balance_rounded:
  assumes sm: "standard_model u A" and u: "0 \<le> u" "u \<le> 1 / 64"
    and M: "calcThrust_fl A ct' rho' maxRPS' D = Fin m" and m: "0 < m"
    and X: "jle (mul_fl A (throttleRatio_fl A (Fin w) (Fin n) (Fin m) (Fin cf)) (Fin 100)) (Fin 100)"
  shows "\<exists>T L R. hoverThrustPerMotor_fl A (Fin w) (Fin n) (Fin cf) ct' rho' maxRPS' D = Fin T
           \<and> \<bar>T * n * cf - w * 9.80665\<bar> \<le> 32 * u * \<bar>w * 9.80665\<bar>
           \<and> mul_fl A (mul_fl A (Fin T) (Fin n)) (Fin cf) = Fin L
           \<and> mul_fl A (Fin w) (GRAVITY_fl A) = Fin R
           \<and> \<bar>L - R\<bar> \<le> 32 * u * \<bar>R\<bar>"
proof -
  let ?rnd = "fl_round A"
  have acc: "\<bar>?rnd x - x\<bar> \<le> u * \<bar>x\<bar>" for x using sm by (simp add: standard_model_def)
  have sqa: "\<bar>fl_sqrt A x - sqrt x\<bar> \<le> u * sqrt x" if "0 \<le> x" for x
    using sm that by (simp add: standard_model_def)
  have rz: "?rnd 0 = 0" using acc by (rule round_zero)
  have u1: "u < 1" using u by simp
  from M obtain a b r p where v: "ct' = Fin a" "rho' = Fin b" "maxRPS' = Fin r"
    "fl_pow A D (Fin 4) = Fin p"
    "m = ?rnd (?rnd (?rnd (?rnd (a * b) * r) * r) * p)"
    by (rule calcThrust_fl_eq_FinD)
  define c where "c = ?rnd (a * b)"
  have mc: "m = ?rnd (?rnd (?rnd (c * r) * r) * p)" using v(5) by (simp add: c_def)
  have cnz: "c \<noteq> 0" using m mc rz by auto
  have rnz: "r \<noteq> 0" using m mc rz by auto
  have pnz: "p \<noteq> 0" using m mc rz by auto
  define req where "req = ?rnd (w * ?rnd 9.80665)"
  define eff where "eff = ?rnd (n * cf)"
  define t where "t = ?rnd (req / eff)"
  define q where "q = ?rnd (t / m)"
  define x where "x = ?rnd (fl_sqrt A q * 100)"
  have effnz: "eff \<noteq> 0"
  proof
    assume "eff = 0"
    then have "\<not> jle (mul_fl A (throttleRatio_fl A (Fin w) (Fin n) (Fin m) (Fin cf)) (Fin 100)) (Fin 100)"
      using m by (simp add: throttleRatio_fl_def Let_def mul_fl_def div_fl_def GRAVITY_fl_def
          GRAVITY_def Math_sqrt_fl_def signed_inf_def eff_def)
    with X show False by simp
  qed
  have tr: "throttleRatio_fl A (Fin w) (Fin n) (Fin m) (Fin cf) =
      (if q < 0 then NaN else Fin (fl_sqrt A q))"
    using effnz m
    by (simp add: throttleRatio_fl_def Let_def mul_fl_def div_fl_def GRAVITY_fl_def
        GRAVITY_def Math_sqrt_fl_def eff_def q_def t_def req_def)
  have q0: "0 \<le> q" using X by (simp add: tr mul_fl_def split: if_splits)
  have xv: "mul_fl A (throttleRatio_fl A (Fin w) (Fin n) (Fin m) (Fin cf)) (Fin 100) = Fin x"
    using q0 by (simp add: tr mul_fl_def x_def)
  have x100: "x \<le> 100" using X by (simp add: xv)
  have ncf: "n * cf \<noteq> 0" using effnz rz by (auto simp: eff_def)
  define r' where "r' = ?rnd (r * ?rnd (min 100 (max 0 x) / 100))"
  define T where "T = ?rnd (?rnd (?rnd (c * r') * r') * p)"
  have ht: "calcHoverThrottle_fl A (Fin w) (Fin n) (Fin m) (Fin cf) = Fin (min 100 (max 0 x))"
    using m by (simp add: calcHoverThrottle_fl_def Let_def xv)
  have rps: "mul_fl A (Fin r) (div_fl A (Fin (min 100 (max 0 x))) (Fin 100)) = Fin r'"
    by (simp add: mul_fl_Fin div_fl_Fin r'_def)
  have "calcThrust_fl A (Fin a) (Fin b) (Fin r') D = Fin T"
    using v(4) by (simp add: calcThrust_fl_Fin T_def c_def)
  then have res: "hoverThrustPerMotor_fl A (Fin w) (Fin n) (Fin cf) ct' rho' maxRPS' D = Fin T"
    unfolding hoverThrustPerMotor_fl_def Let_def M ht unfolding v(1,2,3) rps .
  show ?thesis
  proof (cases "w = 0")
    case True
    have "req = 0" using True rz by (simp add: req_def)
    then have "t = 0" using rz by (simp add: t_def)
    then have "q = 0" using rz by (simp add: q_def)
    moreover have "fl_sqrt A 0 = 0" using sqa [of 0] by simp
    ultimately have "x = 0" using rz by (simp add: x_def)
    then have "r' = 0" using rz by (simp add: r'_def)
    then have "T = 0" using rz by (simp add: T_def)
    with res True rz show ?thesis by (simp add: mul_fl_Fin GRAVITY_fl_def GRAVITY_def)
  next
    case False
    have g: "(9.80665::real) \<noteq> 0" by simp
    define r'' where "r'' = ?rnd (r * ?rnd (x / 100))"
    define T' where "T' = ?rnd (?rnd (?rnd (c * r'') * r'') * p)"
    have ch: "near u 19 (T' * n * cf) (w * 9.80665)
        \<and> near u 19 (?rnd (?rnd (T' * n) * cf)) (?rnd (w * ?rnd 9.80665)) \<and> 0 < x"
      using acc sqa u(1) u1 g False ncf cnz rnz pnz mc
    proof (rule hover_chain)
      show "t = ?rnd (?rnd (w * ?rnd 9.80665) / ?rnd (n * cf))" by (simp add: t_def req_def eff_def)
      show "q = ?rnd (t / m)" by (simp add: q_def)
      show "0 \<le> q" by (rule q0)
      show "x = ?rnd (fl_sqrt A q * 100)" by (simp add: x_def)
      show "r'' = ?rnd (r * ?rnd (x / 100))" by (simp add: r''_def)
      show "T' = ?rnd (?rnd (?rnd (c * r'') * r'') * p)" by (simp add: T'_def)
    qed
    then have "min 100 (max 0 x) = x" using x100 by simp
    then have "T = T'" by (simp add: T_def T'_def r'_def r''_def)
    moreover have "\<bar>T' * n * cf - w * 9.80665\<bar> \<le> 32 * u * \<bar>w * 9.80665\<bar>"
      using ch u by (intro near_bound [where k = 19]) simp_all
    moreover have "\<bar>?rnd (?rnd (T' * n) * cf) - ?rnd (w * ?rnd 9.80665)\<bar>
        \<le> 32 * u * \<bar>?rnd (w * ?rnd 9.80665)\<bar>"
      using ch u by (intro near_bound [where k = 19]) simp_all
    ultimately show ?thesis using res by (simp add: mul_fl_Fin GRAVITY_fl_def GRAVITY_def)
  qed
qed

subsection \<open>Rounding to the nearest double\<close>

lemma round_half_even_unique:
  assumes "\<bar>y - of_int m\<bar> < 1 / 2"
  shows "round_half_even y = m"
proof (cases "of_int m \<le> y")
  case True
  with assms have "\<lfloor>y\<rfloor> = m" by (intro floor_unique) (simp_all add: abs_less_iff)
  with assms True show ?thesis by (simp add: round_half_even_def Let_def abs_less_iff)
next
  case False
  with assms have "\<lfloor>y\<rfloor> = m - 1" by (intro floor_unique) (simp_all add: abs_less_iff)
  with assms False show ?thesis by (simp add: round_half_even_def Let_def abs_less_iff)
qed

lemma round_half_even_error: "\<bar>of_int (round_half_even y) - y\<bar> \<le> 1 / 2"
proof -
  have "of_int \<lfloor>y\<rfloor> \<le> y" "y < of_int \<lfloor>y\<rfloor> + 1" by linarith+
  then show ?thesis by (auto simp: round_half_even_def Let_def abs_le_iff)
qed

lemma binary64_accurate: "\<bar>binary64 x - x\<bar> \<le> (1 / 2 ^ 53) * \<bar>x\<bar>"
proof (cases "x = 0")
  case True
  then show ?thesis by (simp add: binary64_def)
next
  case False
  define E where "E = \<lfloor>log 2 \<bar>x\<bar>\<rfloor>"
  define s :: real where "s = 2 powr of_int (E - 52)"
  define m where "m = round_half_even (x / s)"
  have spos: "0 < s" by (simp add: s_def)
  have b: "binary64 x = of_int m * s"
    using False by (simp add: binary64_def Let_def E_def s_def m_def)
  have "\<bar>of_int m - x / s\<bar> \<le> 1 / 2" unfolding m_def by (rule round_half_even_error)
  then have "\<bar>of_int m - x / s\<bar> * s \<le> 1 / 2 * s" using spos by (intro mult_right_mono) simp_all
  moreover have "\<bar>of_int m - x / s\<bar> * s = \<bar>of_int m * s - x\<bar>"
  proof -
    have "\<bar>of_int m - x / s\<bar> * s = \<bar>of_int m - x / s\<bar> * \<bar>s\<bar>" using spos by simp
    also have "\<dots> = \<bar>(of_int m - x / s) * s\<bar>" by (simp only: abs_mult)
    also have "(of_int m - x / s) * s = of_int m * s - x" using spos by (simp add: field_simps)
    finally show ?thesis .
  qed
  ultimately have 1: "\<bar>binary64 x - x\<bar> \<le> s / 2" by (simp add: b)
  have "of_int E \<le> log 2 \<bar>x\<bar>" by (simp add: E_def)
  then have "2 powr of_int E \<le> 2 powr log 2 \<bar>x\<bar>" by (intro powr_mono) simp_all
  then have 2: "2 powr of_int E \<le> \<bar>x\<bar>" using False by simp
  have "s = 2 powr of_int E / 2 powr 52" by (simp add: s_def powr_diff)
  also have "(2::real) powr 52 = 2 ^ 52" by (rule powr_numeral) simp
  finally have "s / 2 = 2 powr of_int E / 2 ^ 53" by simp
  also have "\<dots> \<le> \<bar>x\<bar> / 2 ^ 53" using 2 by (intro divide_right_mono) simp_all
  finally show ?thesis using 1 by simp
qed

lemma binary64_eval:
  fixes x :: real
  assumes lo: "2 ^ 52 \<le> \<bar>x\<bar> * 2 ^ k" and hi: "\<bar>x\<bar> * 2 ^ k < 2 ^ 53"
    and m: "\<bar>x * 2 ^ k - of_int m\<bar> < 1 / 2"
  shows "binary64 x = of_int m / 2 ^ k"
proof -
  have x: "x \<noteq> 0" using lo by auto
  have n52: "(2::real) powr 52 = 2 ^ 52" by (rule powr_numeral) simp
  have n53: "(2::real) powr 53 = 2 ^ 53" by (rule powr_numeral) simp
  have p: "2 powr (52 - real k) = (2 ^ 52 / 2 ^ k :: real)"
    unfolding powr_diff n52 by (simp add: powr_realpow)
  have p1: "2 powr (53 - real k) = (2 ^ 53 / 2 ^ k :: real)"
    unfolding powr_diff n53 by (simp add: powr_realpow)
  have "\<lfloor>log 2 \<bar>x\<bar>\<rfloor> = 52 - int k"
    using x lo hi by (subst floor_log_eq_powr_iff) (simp_all add: p p1 field_simps)
  moreover have "2 powr of_int (- int k) = (1 / 2 ^ k :: real)"
    by (simp add: powr_minus_divide powr_realpow)
  moreover have "round_half_even (x * 2 ^ k) = m" using m by (rule round_half_even_unique)
  ultimately show ?thesis using x by (simp add: binary64_def Let_def)
qed

lemma binary64_sqrt_eval:
  assumes q: "0 < q" and m: "2 ^ 52 < m" "m < 2 ^ 53"
    and lo: "((of_int m - 1 / 2) / 2 ^ k)\<^sup>2 < q" and hi: "q < ((of_int m + 1 / 2) / 2 ^ k)\<^sup>2"
  shows "binary64 (sqrt q) = of_int m / 2 ^ k"
proof -
  have "2 ^ 52 + 1 \<le> m" "m \<le> 2 ^ 53 - 1" using m by simp_all
  then have "(of_int (2 ^ 52 + 1) :: real) \<le> of_int m" "(of_int m :: real) \<le> of_int (2 ^ 53 - 1)"
    unfolding of_int_le_iff by simp_all
  then have mr: "(2 ^ 52 + 1 :: real) \<le> of_int m" "of_int m \<le> (2 ^ 53 - 1 :: real)"
    by simp_all
  have 1: "(of_int m - 1 / 2) / 2 ^ k < sqrt q" using lo by (rule real_less_rsqrt)
  have 2: "sqrt q < (of_int m + 1 / 2) / 2 ^ k"
    using hi q mr by (intro real_less_lsqrt) simp_all
  have 3: "of_int m - 1 / 2 < sqrt q * 2 ^ k" using 1 by (simp add: field_simps)
  have 4: "sqrt q * 2 ^ k < of_int m + 1 / 2" using 2 by (simp add: field_simps)
  have s: "\<bar>sqrt q\<bar> = sqrt q" using q by simp
  show ?thesis
  proof (rule binary64_eval)
    show "2 ^ 52 \<le> \<bar>sqrt q\<bar> * 2 ^ k" unfolding s using 3 mr by linarith
    show "\<bar>sqrt q\<bar> * 2 ^ k < 2 ^ 53" unfolding s using 4 mr by linarith
    show "\<bar>sqrt q * 2 ^ k - of_int m\<bar> < 1 / 2" using 3 4 unfolding abs_less_iff by linarith
  qed
qed

lemma binary64_standard_model: "standard_model (1 / 2 ^ 53) binary64_arithmetic"
proof -
  have "\<bar>binary64 (sqrt x) - sqrt x\<bar> \<le> 1 / 2 ^ 53 * sqrt x" if "0 \<le> x" for x
    using binary64_accurate [of "sqrt x"] that by simp
  then show ?thesis
    unfolding standard_model_def binary64_arithmetic_def
    using binary64_accurate by simp
qed

lemma exact_standard_model: "standard_model 0 exact_arithmetic"
  by (simp add: standard_model_def exact_arithmetic_def)

lemma b64_g: "binary64 (196133 / 20000) = 5520653160719109 / 562949953421312"
  by (rule binary64_eval [where k = 49 and m = 5520653160719109, THEN trans]) simp_all

lemma b64_a1: "binary64 (5 / 32) = 5 / 32"
  by (rule binary64_eval [where k = 55 and m = 5629499534213120, THEN trans]) simp_all

lemma b64_a2: "binary64 40 = 40"
  by (rule binary64_eval [where k = 47 and m = 5629499534213120, THEN trans]) simp_all

lemma b64_a3: "binary64 10240 = 10240"
  by (rule binary64_eval [where k = 39 and m = 5629499534213120, THEN trans]) simp_all

lemma b64_req: "binary64 (5520653160719109 / 562949953421312) = 5520653160719109 / 562949953421312"
  by (rule binary64_eval [where k = 49 and m = 5520653160719109, THEN trans]) simp_all

lemma b64_eff: "binary64 4 = 4"
  by (rule binary64_eval [where k = 50 and m = 4503599627370496, THEN trans]) simp_all

lemma b64_t: "binary64 (5520653160719109 / 2251799813685248) = 5520653160719109 / 2251799813685248"
  by (rule binary64_eval [where k = 51 and m = 5520653160719109, THEN trans]) simp_all

lemma b64_q: "binary64 (5520653160719109 / 90071992547409920) = 4416522528575287 / 72057594037927936"
  by (rule binary64_eval [where k = 57 and m = 8833045057150574, THEN trans]) simp_all

lemma b64_s: "binary64 (sqrt (4416522528575287 / 72057594037927936)) = 8919697128034127 / 36028797018963968"
  by (rule binary64_sqrt_eval [where k = 55 and m = 8919697128034127, THEN trans]) (simp_all add: power2_eq_square)

lemma b64_x: "binary64 (222992428200853175 / 9007199254740992) = 3484256690638331 / 140737488355328"
  by (rule binary64_eval [where k = 48 and m = 6968513381276662, THEN trans]) simp_all

lemma b64_k: "binary64 (3484256690638331 / 14073748835532800) = 8919697128034127 / 36028797018963968"
  by (rule binary64_eval [where k = 55 and m = 8919697128034127, THEN trans]) simp_all

lemma b64_R1: "binary64 (8919697128034127 / 140737488355328) = 8919697128034127 / 140737488355328"
  by (rule binary64_eval [where k = 47 and m = 8919697128034127, THEN trans]) simp_all

lemma b64_b2: "binary64 (44598485640170635 / 4503599627370496) = 5574810705021329 / 562949953421312"
  by (rule binary64_eval [where k = 49 and m = 5574810705021329, THEN trans]) simp_all

lemma b64_b3: "binary64 (49725623034912655024973374894783 / 79228162514264337593543950336) = 1380163290179777 / 2199023255552"
  by (rule binary64_eval [where k = 43 and m = 5520653160719108, THEN trans]) simp_all

lemma b64_T: "binary64 (1380163290179777 / 562949953421312) = 1380163290179777 / 562949953421312"
  by (rule binary64_eval [where k = 51 and m = 5520653160719108, THEN trans]) simp_all

lemma b64_Tn: "binary64 (1380163290179777 / 140737488355328) = 1380163290179777 / 140737488355328"
  by (rule binary64_eval [where k = 49 and m = 5520653160719108, THEN trans]) simp_all

lemma b64_p: "binary64 (1 / 256) = 1 / 256"
  by (rule binary64_eval [where k = 60 and m = 4503599627370496, THEN trans]) simp_all

lemmas b64_steps = b64_g b64_a1 b64_a2 b64_a3 b64_req b64_eff b64_t b64_q b64_s b64_x b64_k b64_R1 b64_b2 b64_b3 b64_T b64_Tn b64_p

lemma b64_fields [simp]:
  "fl_round binary64_arithmetic = binary64"
  "fl_sqrt binary64_arithmetic x = binary64 (sqrt x)"
  "fl_pow binary64_arithmetic a b = round_with binary64 (Math_pow a b)"
  by (simp_all add: binary64_arithmetic_def)

lemma b64_maxThrust:
  "calcThrust_fl binary64_arithmetic (Fin 0.125) (Fin 1.25) (Fin 256) (Fin 0.25) = Fin 40"
  by (simp add: calcThrust_fl_def mul_fl_def round_with_def finite_pow_def power_divide b64_steps)

lemma b64_throttle:
  "mul_fl binary64_arithmetic (throttleRatio_fl binary64_arithmetic (Fin 1) (Fin 4) (Fin 40) (Fin 1))
     (Fin 100) = Fin (3484256690638331 / 140737488355328)"
  by (simp add: throttleRatio_fl_def Let_def mul_fl_def div_fl_def GRAVITY_fl_def GRAVITY_def
      Math_sqrt_fl_def b64_steps)

lemma b64_calcHoverThrottle:
  "calcHoverThrottle_fl binary64_arithmetic (Fin 1) (Fin 4) (Fin 40) (Fin 1) =
     Fin (3484256690638331 / 140737488355328)"
  unfolding calcHoverThrottle_fl_def Let_def b64_throttle by simp

lemma b64_hoverThrust:
  "hoverThrustPerMotor_fl binary64_arithmetic (Fin 1) (Fin 4) (Fin 1) (Fin 0.125) (Fin 1.25)
     (Fin 256) (Fin 0.25) = Fin (1380163290179777 / 562949953421312)"
  unfolding hoverThrustPerMotor_fl_def Let_def b64_maxThrust b64_calcHoverThrottle
  by (simp add: calcThrust_fl_def mul_fl_def div_fl_def round_with_def finite_pow_def power_divide b64_steps)

lemma b64_sides:
  "mul_fl binary64_arithmetic (mul_fl binary64_arithmetic (Fin (1380163290179777 / 562949953421312)) (Fin 4)) (Fin 1)
     = Fin (5520653160719108 / 562949953421312)"
  "mul_fl binary64_arithmetic (Fin 1) (GRAVITY_fl binary64_arithmetic)
     = Fin (5520653160719109 / 562949953421312)"
  by (simp_all add: mul_fl_def GRAVITY_fl_def GRAVITY_def b64_steps)

lemma exact_fields [simp]:
  "rounded exact_arithmetic x = x"
  "fl_pow exact_arithmetic = Math_pow"
  "Math_sqrt_fl exact_arithmetic x = Math_sqrt x"
  by (cases x; simp add: exact_arithmetic_def Math_sqrt_fl_def rounded_def round_with_def)+

lemma exact_calcThrust: "calcThrust_fl exact_arithmetic a b r d = calcThrust a b r d"
  by (simp add: calcThrust_fl_def calcThrust_def mul_fl_def)

lemma exact_calcHoverThrottle:
  "calcHoverThrottle_fl exact_arithmetic w n m cf = calcHoverThrottle w n m cf"
  by (simp add: calcHoverThrottle_fl_def calcHoverThrottle_def throttleRatio_fl_def Let_def
      mul_fl_def div_fl_def GRAVITY_fl_def)

lemma exact_hoverThrust:
  "hoverThrustPerMotor_fl exact_arithmetic (totalWeightKg c) (numMotors c) (coaxFactor c) (ct c)
     (rho c) (maxRPS c) (propDiameterM c) = hoverThrustPerMotor c"
  by (simp add: hoverThrustPerMotor_fl_def Let_def exact_calcThrust exact_calcHoverThrottle
      hoverThrustPerMotor_def hoverRPS_def hoverThrottle_def maxThrustPerMotor_def mul_fl_def
      div_fl_def)

lemma jmul_one: "jmul x (Fin 1) = x"
  by (cases x) (simp_all add: signed_inf_def)

lemma full_throttle_thrust:
  "hoverThrottle c = Fin 100 \<Longrightarrow> hoverThrustPerMotor c = maxThrustPerMotor c"
  by (simp add: hoverThrustPerMotor_def maxThrustPerMotor_def hoverRPS_def jmul_one)


subsection \<open>A craft too heavy to hover\<close>

lemma overweight_values:
  "numMotors overweight_config = Fin 4"
  "coaxFactor overweight_config = Fin 1"
  "totalWeightKg overweight_config = Fin (5017 / 50)"
  "ct overweight_config = Fin (381 / 4000)"
  "maxRPS overweight_config = Fin (1541 / 6)"
  "propDiameterM overweight_config = Fin (254 / 1000)"
  "rho overweight_config = Fin (337750000 / 285287809)"
  by (simp_all add: rho_default totalWeightKg_def maxRPS_def maxRPM_def calcMotorRPM_def
      input_defs section_defs js_defs overweight_config_def empty_config_def
      estimatePropCoefficients_def Let_def)

lemma overweight_maxThrust:
  "maxThrustPerMotor overweight_config = Fin (1581992530231498651 / 51096324000000000)"
  by (simp add: maxThrustPerMotor_def calcThrust_def overweight_values finite_pow_def power_divide)

lemma overweight_throttle: "hoverThrottle overweight_config = Fin 100"
proof -
  have "1 \<le> sqrt (5017 / 50 * 9.80665 / (4 * 1) / (1581992530231498651 / 51096324000000000))"
    by (subst real_sqrt_ge_1_iff) simp
  then have "min 100 (max 0 (sqrt (5017 / 50 * 9.80665 / (4 * 1) / (1581992530231498651 / 51096324000000000)) * 100)) = 100"
    by (simp add: min_def max_def)
  moreover have "hoverThrottle overweight_config = 
     Fin (min 100 (max 0 (sqrt (5017 / 50 * 9.80665 / (4 * 1) / (1581992530231498651 / 51096324000000000)) * 100)))"
    unfolding hoverThrottle_def overweight_values overweight_maxThrust calcHoverThrottle_def Let_def GRAVITY_def
    by (simp del: divide_divide_eq_left mult_1_right)
  ultimately show ?thesis by simp
qed


subsection \<open>A motor of infinite speed\<close>

lemma infinite_kv_values:
  "numMotors infinite_kv_config = Fin 4"
  "coaxFactor infinite_kv_config = Fin 1"
  "totalWeightKg infinite_kv_config = Fin (17 / 50)"
  "ct infinite_kv_config = Fin (381 / 4000)"
  "maxRPS infinite_kv_config = PInf"
  "propDiameterM infinite_kv_config = Fin (254 / 1000)"
  "rho infinite_kv_config = Fin (337750000 / 285287809)"
  by (simp_all add: rho_default totalWeightKg_def maxRPS_def maxRPM_def calcMotorRPM_def
      input_defs section_defs js_defs infinite_kv_config_def empty_config_def
      estimatePropCoefficients_def Let_def signed_inf_def)

lemma infinite_kv_maxThrust: "maxThrustPerMotor infinite_kv_config = PInf"
  by (simp add: maxThrustPerMotor_def calcThrust_def infinite_kv_values finite_pow_def
      power_divide signed_inf_def)

lemma infinite_kv_throttle: "hoverThrottle infinite_kv_config = Fin 0"
  by (simp add: hoverThrottle_def infinite_kv_maxThrust infinite_kv_values calcHoverThrottle_def
      Let_def GRAVITY_def)

lemma infinite_kv_hoverThrust: "hoverThrustPerMotor infinite_kv_config = NaN"
  by (simp add: hoverThrustPerMotor_def hoverRPS_def infinite_kv_throttle infinite_kv_values
      calcThrust_def signed_inf_def)

text \<open>
  Claim C10 says that whenever the maximum thrust per motor is positive and the hover
  throttle is at most 100, the hover thrust of all motors equals the weight exactly.
  Three things stand against it.

  The throttle is clamped to 100, so it is at most 100 also when the motors cannot lift
  the craft: with a 100 kg frame the throttle is 100, the hover thrust is the maximum
  thrust, and \<open>hoverThrustPerMotor \<times> numMotors \<times> coaxFactor\<close> is about 124 N against a
  weight of about 984 N.

  A maximum thrust of Infinity is strictly positive: with a motor whose \<open>kv\<close> is Infinity
  the throttle is 0, the hover speed is \<open>Infinity \<times> 0\<close> and the hover thrust is NaN.

  Where the throttle is not clamped, the numbers are doubles and the square of a rounded
  square root is not the number it was taken of. With \<open>ct = 0.125\<close>, \<open>rho = 1.25\<close>,
  \<open>maxRPS = 256\<close>, \<open>propDiameterM = 0.25\<close>, \<open>totalWeightKg = 1\<close>, four motors and
  \<open>coaxFactor = 1\<close>, \<^verbatim>\<open>calcThrust\<close> returns a maximum thrust of 40,
  \<^verbatim>\<open>calcHoverThrottle\<close> returns 24.757132810565928 and the hover thrust is
  2.4516624999999994. Its product with 4 and 1 is the double 9.806649999999998,
  where \<^verbatim>\<open>totalWeightKg * GRAVITY\<close> is the double 9.80665, one unit in the last place
  above it; the hover thrust is not the exact quotient \<open>1 \<times> 9.80665 / (4 \<times> 1)\<close> either.
\<close>

theorem hover_does_not_balance_exactly:
  "jlt (Fin 0) (maxThrustPerMotor overweight_config)
   \<and> jle (hoverThrottle overweight_config) (Fin 100)
   \<and> jmul (jmul (hoverThrustPerMotor overweight_config) (numMotors overweight_config))
        (coaxFactor overweight_config)
      \<noteq> jmul (totalWeightKg overweight_config) GRAVITY
   \<and> jlt (Fin 0) (maxThrustPerMotor infinite_kv_config)
   \<and> jle (hoverThrottle infinite_kv_config) (Fin 100)
   \<and> jmul (jmul (hoverThrustPerMotor infinite_kv_config) (numMotors infinite_kv_config))
        (coaxFactor infinite_kv_config)
      \<noteq> jmul (totalWeightKg infinite_kv_config) GRAVITY
   \<and> calcThrust_fl binary64_arithmetic (Fin 0.125) (Fin 1.25) (Fin 256) (Fin 0.25) = Fin 40
   \<and> calcHoverThrottle_fl binary64_arithmetic (Fin 1) (Fin 4) (Fin 40) (Fin 1) =
        Fin (3484256690638331 / 2 ^ 47)
   \<and> hoverThrustPerMotor_fl binary64_arithmetic (Fin 1) (Fin 4) (Fin 1) (Fin 0.125) (Fin 1.25)
        (Fin 256) (Fin 0.25) = Fin (5520653160719108 / 2 ^ 51)
   \<and> mul_fl binary64_arithmetic
        (mul_fl binary64_arithmetic
           (hoverThrustPerMotor_fl binary64_arithmetic (Fin 1) (Fin 4) (Fin 1) (Fin 0.125)
              (Fin 1.25) (Fin 256) (Fin 0.25)) (Fin 4)) (Fin 1) = Fin (5520653160719108 / 2 ^ 49)
   \<and> mul_fl binary64_arithmetic (Fin 1) (GRAVITY_fl binary64_arithmetic) =
        Fin (5520653160719109 / 2 ^ 49)
   \<and> mul_fl binary64_arithmetic
        (mul_fl binary64_arithmetic
           (hoverThrustPerMotor_fl binary64_arithmetic (Fin 1) (Fin 4) (Fin 1) (Fin 0.125)
              (Fin 1.25) (Fin 256) (Fin 0.25)) (Fin 4)) (Fin 1)
      \<noteq> mul_fl binary64_arithmetic (Fin 1) (GRAVITY_fl binary64_arithmetic)
   \<and> jmul (jmul
        (hoverThrustPerMotor_fl binary64_arithmetic (Fin 1) (Fin 4) (Fin 1) (Fin 0.125)
           (Fin 1.25) (Fin 256) (Fin 0.25)) (Fin 4)) (Fin 1)
      \<noteq> jmul (Fin 1) GRAVITY"
proof -
  have "hoverThrustPerMotor overweight_config = Fin (1581992530231498651 / 51096324000000000)"
    by (simp add: hoverThrustPerMotor_def hoverRPS_def overweight_throttle calcThrust_def overweight_values finite_pow_def power_divide)
  then have 1: "jlt (Fin 0) (maxThrustPerMotor overweight_config)
   \<and> jle (hoverThrottle overweight_config) (Fin 100)
   \<and> jmul (jmul (hoverThrustPerMotor overweight_config) (numMotors overweight_config))
        (coaxFactor overweight_config)
      \<noteq> jmul (totalWeightKg overweight_config) GRAVITY"
    by (simp add: overweight_maxThrust overweight_throttle overweight_values GRAVITY_def)
  have k: "jlt (Fin 0) (maxThrustPerMotor infinite_kv_config)
   \<and> jle (hoverThrottle infinite_kv_config) (Fin 100)
   \<and> jmul (jmul (hoverThrustPerMotor infinite_kv_config) (numMotors infinite_kv_config))
        (coaxFactor infinite_kv_config)
      \<noteq> jmul (totalWeightKg infinite_kv_config) GRAVITY"
    by (simp add: infinite_kv_maxThrust infinite_kv_throttle infinite_kv_hoverThrust
        infinite_kv_values GRAVITY_def)
  have 2: "calcHoverThrottle_fl binary64_arithmetic (Fin 1) (Fin 4) (Fin 40) (Fin 1) =
        Fin (3484256690638331 / 2 ^ 47)"
    by (simp add: b64_calcHoverThrottle)
  have 3: "hoverThrustPerMotor_fl binary64_arithmetic (Fin 1) (Fin 4) (Fin 1) (Fin 0.125) (Fin 1.25)
        (Fin 256) (Fin 0.25) = Fin (5520653160719108 / 2 ^ 51)"
    using b64_hoverThrust by simp
  have 4: "mul_fl binary64_arithmetic
        (mul_fl binary64_arithmetic
           (hoverThrustPerMotor_fl binary64_arithmetic (Fin 1) (Fin 4) (Fin 1) (Fin 0.125)
              (Fin 1.25) (Fin 256) (Fin 0.25)) (Fin 4)) (Fin 1) = Fin (5520653160719108 / 2 ^ 49)"
    unfolding b64_hoverThrust b64_sides by simp
  have 5: "mul_fl binary64_arithmetic (Fin 1) (GRAVITY_fl binary64_arithmetic) =
        Fin (5520653160719109 / 2 ^ 49)"
    unfolding b64_sides by simp
  have 6: "mul_fl binary64_arithmetic
        (mul_fl binary64_arithmetic
           (hoverThrustPerMotor_fl binary64_arithmetic (Fin 1) (Fin 4) (Fin 1) (Fin 0.125)
              (Fin 1.25) (Fin 256) (Fin 0.25)) (Fin 4)) (Fin 1)
      \<noteq> mul_fl binary64_arithmetic (Fin 1) (GRAVITY_fl binary64_arithmetic)"
    unfolding 4 5 by simp
  have 7: "jmul (jmul
        (hoverThrustPerMotor_fl binary64_arithmetic (Fin 1) (Fin 4) (Fin 1) (Fin 0.125)
           (Fin 1.25) (Fin 256) (Fin 0.25)) (Fin 4)) (Fin 1)
      \<noteq> jmul (Fin 1) GRAVITY"
    unfolding b64_hoverThrust by (simp add: GRAVITY_def)
  from 1 k b64_maxThrust 2 3 4 5 6 7 show ?thesis by (intro conjI) simp_all
qed

text \<open>
  Claim C10, amended. The hover lines are read in an arithmetic that satisfies the
  standard model with unit roundoff \<open>u \<le> 1/64\<close>: every rounded result and every square
  root has a relative error of at most \<open>u\<close>. Exact arithmetic does so with \<open>u = 0\<close>, and
  rounding to the nearest double with \<open>u = 2\<^sup>-\<^sup>5\<^sup>3\<close>, as long as no operation overflows or
  underflows. \<^verbatim>\<open>Math.pow\<close> may return anything.

  Let \<open>totalWeightKg\<close>, \<open>numMotors\<close> and \<open>coaxFactor\<close> be finite numbers \<open>w\<close>, \<open>n\<close> and
  \<open>cf\<close>, and let \<open>ct\<close>, \<open>rho\<close>, \<open>maxRPS\<close> and \<open>propDiameterM\<close> be any values. If the maximum
  thrust per motor is a finite number strictly above 0, and \<^verbatim>\<open>throttleRatio * 100\<close> as
  \<^verbatim>\<open>calcHoverThrottle\<close> computes it is at most 100, so that the clamp to 100 leaves it as it
  is (a throttle of exactly 100 included), then the hover thrust per motor is a finite
  number \<open>T\<close> and \<open>T \<times> n \<times> cf\<close> differs from \<open>w \<times> 9.80665\<close> by at most \<open>32 \<times> u\<close> times the
  absolute value of the latter. The same bound holds between the two sides as the
  program would compute them, \<^verbatim>\<open>hoverThrustPerMotor * numMotors * coaxFactor\<close> and
  \<^verbatim>\<open>totalWeightKg * GRAVITY\<close>. For doubles this is a relative difference of at most
  \<open>2\<^sup>-\<^sup>4\<^sup>8\<close>, about \<open>3.6 \<times> 10\<^sup>-\<^sup>1\<^sup>5\<close>; only in exact arithmetic is it an equality.

  With exact arithmetic the rounded functions are those of the exact model, for every
  configuration. And for every configuration whose hover throttle is 100, clamped or
  not, the hover thrust per motor is the maximum thrust per motor.
\<close>

theorem hover_balance_within_rounding:
  "(standard_model u A \<and> 0 \<le> u \<and> u \<le> 1 / 64
      \<and> calcThrust_fl A ct' rho' maxRPS' D = Fin m \<and> 0 < m
      \<and> jle (mul_fl A (throttleRatio_fl A (Fin w) (Fin n) (Fin m) (Fin cf)) (Fin 100)) (Fin 100)
    \<longrightarrow> (\<exists>T L R. hoverThrustPerMotor_fl A (Fin w) (Fin n) (Fin cf) ct' rho' maxRPS' D = Fin T
           \<and> \<bar>T * n * cf - w * 9.80665\<bar> \<le> 32 * u * \<bar>w * 9.80665\<bar>
           \<and> mul_fl A (mul_fl A (Fin T) (Fin n)) (Fin cf) = Fin L
           \<and> mul_fl A (Fin w) (GRAVITY_fl A) = Fin R
           \<and> \<bar>L - R\<bar> \<le> 32 * u * \<bar>R\<bar>))
   \<and> standard_model 0 exact_arithmetic
   \<and> standard_model (1 / 2 ^ 53) binary64_arithmetic
   \<and> hoverThrustPerMotor_fl exact_arithmetic (totalWeightKg c) (numMotors c) (coaxFactor c)
        (ct c) (rho c) (maxRPS c) (propDiameterM c) = hoverThrustPerMotor c
   \<and> calcThrust_fl exact_arithmetic (ct c) (rho c) (maxRPS c) (propDiameterM c) =
        maxThrustPerMotor c
   \<and> (hoverThrottle c = Fin 100 \<longrightarrow> hoverThrustPerMotor c = maxThrustPerMotor c)"
  using hover_balance_rounded [of u A ct' rho' maxRPS' D m w n cf]
    exact_standard_model binary64_standard_model exact_hoverThrust [of c]
    exact_calcThrust [of "ct c" "rho c" "maxRPS c" "propDiameterM c"] full_throttle_thrust [of c]
  unfolding maxThrustPerMotor_def by blast

theorem hover_balance_within_rounding_witness:
  "standard_model (1 / 2 ^ 53) binary64_arithmetic \<and> (0::real) \<le> 1 / 2 ^ 53
   \<and> (1::real) / 2 ^ 53 \<le> 1 / 64
   \<and> calcThrust_fl binary64_arithmetic (Fin 0.125) (Fin 1.25) (Fin 256) (Fin 0.25) = Fin 40
   \<and> (0::real) < 40
   \<and> jle (mul_fl binary64_arithmetic
          (throttleRatio_fl binary64_arithmetic (Fin 1) (Fin 4) (Fin 40) (Fin 1)) (Fin 100))
        (Fin 100)
   \<and> (\<exists>T L R. hoverThrustPerMotor_fl binary64_arithmetic (Fin 1) (Fin 4) (Fin 1) (Fin 0.125)
            (Fin 1.25) (Fin 256) (Fin 0.25) = Fin T
          \<and> \<bar>T * 4 * 1 - 1 * 9.80665\<bar> \<le> 32 * (1 / 2 ^ 53) * \<bar>1 * 9.80665\<bar>
          \<and> mul_fl binary64_arithmetic (mul_fl binary64_arithmetic (Fin T) (Fin 4)) (Fin 1) = Fin L
          \<and> mul_fl binary64_arithmetic (Fin 1) (GRAVITY_fl binary64_arithmetic) = Fin R
          \<and> \<bar>L - R\<bar> \<le> 32 * (1 / 2 ^ 53) * \<bar>R\<bar>)
   \<and> hoverThrottle overweight_config = Fin 100
   \<and> hoverThrustPerMotor overweight_config = maxThrustPerMotor overweight_config"
proof -
  have h1: "(0::real) \<le> 1 / 2 ^ 53" "(1::real) / 2 ^ 53 \<le> 1 / 64" "(0::real) < 40"
    by simp_all
  have h2: "jle (mul_fl binary64_arithmetic
          (throttleRatio_fl binary64_arithmetic (Fin 1) (Fin 4) (Fin 40) (Fin 1)) (Fin 100))
        (Fin 100)"
    unfolding b64_throttle by simp
  note h = binary64_standard_model h1 b64_maxThrust h2
  from overweight_throttle h hover_balance_within_rounding [of "1 / 2 ^ 53" binary64_arithmetic "Fin 0.125" "Fin 1.25"
      "Fin 256" "Fin 0.25" 40 1 4 1 overweight_config]
  show ?thesis by blast
qed

end
